theory Spec2Isabelle
  imports Main "HOL-Library.Word"
begin

unbundle bit_operations_syntax

section \<open>Data model\<close>

type_synonym u8 = "8 word"
type_synonym u16 = "16 word"
type_synonym u32 = "32 word"

text \<open>
  Modelled from the spec: the frame type \<open>CANMessage\<close> is declared in a header that is
  not part of the sources. The fields are the ones \<^verbatim>\<open>ACAN2517.cpp\<close> reads and writes:
  \<open>id\<close> (uint32_t, here \<open>id'\<close>), \<open>ext\<close>, \<open>rtr\<close>, \<open>idx\<close> (uint8_t: the send-routing index
  on transmit, the filter-match index on receive), \<open>len\<close> (uint8_t) and the eight payload
  bytes, held as the two 32-bit words \<open>data32[0]\<close> and \<open>data32[1]\<close> through which this file
  accesses them. A default-constructed message has every field zero.
\<close>

record CANMessage =
  id' :: u32
  ext :: bool
  rtr :: bool
  idx :: u8
  len :: u8
  data32_0 :: u32
  data32_1 :: u32

definition CANMessage_default :: CANMessage where
  "CANMessage_default =
     \<lparr>id' = 0, ext = False, rtr = False, idx = 0, len = 0, data32_0 = 0, data32_1 = 0\<rparr>"

section \<open>Register addresses\<close>

definition C1CON_REGISTER :: u16 where "C1CON_REGISTER = 0x000"
definition C1NBTCFG_REGISTER :: u16 where "C1NBTCFG_REGISTER = 0x004"
definition C1TXQCON_REGISTER :: u16 where "C1TXQCON_REGISTER = 0x050"
definition C1TXQSTA_REGISTER :: u16 where "C1TXQSTA_REGISTER = 0x054"
definition C1TXQUA_REGISTER :: u16 where "C1TXQUA_REGISTER = 0x058"
definition C1INT_REGISTER :: u16 where "C1INT_REGISTER = 0x01C"

definition C1FIFOCON_REGISTER :: "u16 \<Rightarrow> u16" where
  "C1FIFOCON_REGISTER inFIFOIndex = 0x05C + 12 * (inFIFOIndex - 1)"

definition C1FIFOSTA_REGISTER :: "u16 \<Rightarrow> u16" where
  "C1FIFOSTA_REGISTER inFIFOIndex = 0x060 + 12 * (inFIFOIndex - 1)"

definition C1FIFOUA_REGISTER :: "u16 \<Rightarrow> u16" where
  "C1FIFOUA_REGISTER inFIFOIndex = 0x064 + 12 * (inFIFOIndex - 1)"

definition C1FLTCON_REGISTER :: "u16 \<Rightarrow> u16" where
  "C1FLTCON_REGISTER inFilterIndex = 0x1D0 + inFilterIndex"

definition C1FLTOBJ_REGISTER :: "u16 \<Rightarrow> u16" where
  "C1FLTOBJ_REGISTER inFilterIndex = 0x1F0 + 8 * inFilterIndex"

definition C1MASK_REGISTER :: "u16 \<Rightarrow> u16" where
  "C1MASK_REGISTER inFilterIndex = 0x1F4 + 8 * inFilterIndex"

definition OSC_REGISTER :: u16 where "OSC_REGISTER = 0xE00"
definition IOCON_REGISTER :: u16 where "IOCON_REGISTER = 0xE04"

definition receiveFIFOIndex :: u16 where "receiveFIFOIndex = 1"

section \<open>SPI command bytes\<close>

text \<open>
  Every register access of the file (its \<open>OPTIMIZED_SPI\<close> branches, which the file
  selects) starts its buffer with the same two bytes: the 16-bit command, the opcode in
  the top four bits over the 12-bit address, high byte first.
\<close>

definition readCommand :: "u16 \<Rightarrow> u8 list" where
  "readCommand inRegisterAddress =
     (let command = (inRegisterAddress AND 0x0FFF) OR push_bit 12 3 :: u16
      in [ucast (drop_bit 8 command), ucast (command AND 0xFF)])"

definition writeCommand :: "u16 \<Rightarrow> u8 list" where
  "writeCommand inRegisterAddress =
     (let command = (inRegisterAddress AND 0x0FFF) OR push_bit 12 2 :: u16
      in [ucast (drop_bit 8 command), ucast (command AND 0xFF)])"

section \<open>Frame codec\<close>

text \<open>
  The identifier reordering of an extended frame, written inline in the source: on
  transmit in \<open>appendInControllerTxFIFO\<close> and \<open>sendViaTXQ\<close>, on receive in
  \<open>receiveInterrupt\<close>.
\<close>

definition reorderTx :: "u32 \<Rightarrow> u32" where
  "reorderTx i = ((drop_bit 18 i) AND 0x7FF) OR (push_bit 11 (i AND 0x3FFFF))"

definition reorderRx :: "u32 \<Rightarrow> u32" where
  "reorderRx tempID = ((drop_bit 11 tempID) AND 0x3FFFF) OR (push_bit 18 (tempID AND 0x7FF))"

text \<open>
  The identifier word and the control word (DLC, RTR and IDE bits) that
  \<open>appendInControllerTxFIFO\<close> and \<open>sendViaTXQ\<close> compute, by the same statements, before
  they fill the buffer.
\<close>

definition txIdf :: "CANMessage \<Rightarrow> u32" where
  "txIdf inMessage = (if ext inMessage then reorderTx (id' inMessage) else id' inMessage)"

definition txData :: "CANMessage \<Rightarrow> u32" where
  "txData inMessage =
    (let data0 = (if 8 < len inMessage then 8 else ucast (len inMessage) :: u32);
         data1 = (if rtr inMessage then data0 OR push_bit 5 1 else data0)
     in if ext inMessage then data1 OR push_bit 4 1 else data1)"

text \<open>
  The 18-byte buffer that \<open>appendInControllerTxFIFO\<close> and \<open>sendViaTXQ\<close> hand to
  \<open>mSPI.transfer\<close> (the \<open>OPTIMIZED_SPI\<close> branch, which the file selects): the write
  command for \<open>ramAddress\<close>, then the identifier word, the control word and the two
  payload words, each least significant byte first.
\<close>

definition txBuff :: "u16 \<Rightarrow> CANMessage \<Rightarrow> u8 list" where
  "txBuff ramAddress inMessage =
    (let idf = txIdf inMessage;
         data = txData inMessage
     in writeCommand ramAddress @
        [ucast idf, ucast (drop_bit 8 idf), ucast (drop_bit 16 idf), ucast (drop_bit 24 idf),
         ucast data, ucast (drop_bit 8 data), ucast (drop_bit 16 data), ucast (drop_bit 24 data),
         ucast (data32_0 inMessage), ucast (drop_bit 8 (data32_0 inMessage)),
         ucast (drop_bit 16 (data32_0 inMessage)), ucast (drop_bit 24 (data32_0 inMessage)),
         ucast (data32_1 inMessage), ucast (drop_bit 8 (data32_1 inMessage)),
         ucast (drop_bit 16 (data32_1 inMessage)), ucast (drop_bit 24 (data32_1 inMessage))])"

text \<open>
  The message \<open>receiveInterrupt\<close> builds from the 18 bytes that \<open>mSPI.transfer\<close> left in
  \<open>buff\<close>: bytes 2 to 17 are the message object.
\<close>

definition rxMessage :: "u8 list \<Rightarrow> CANMessage" where
  "rxMessage buff =
    (let ident = (ucast (buff ! 2) OR push_bit 8 (ucast (buff ! 3))
                  OR push_bit 16 (ucast (buff ! 4)) OR push_bit 24 (ucast (buff ! 5)) :: u32);
         data = (ucast (buff ! 6) OR push_bit 8 (ucast (buff ! 7))
                  OR push_bit 16 (ucast (buff ! 8)) OR push_bit 24 (ucast (buff ! 9)) :: u32);
         d0 = (ucast (buff ! 10) OR push_bit 8 (ucast (buff ! 11))
                  OR push_bit 16 (ucast (buff ! 12)) OR push_bit 24 (ucast (buff ! 13)) :: u32);
         d1 = (ucast (buff ! 14) OR push_bit 8 (ucast (buff ! 15))
                  OR push_bit 16 (ucast (buff ! 16)) OR push_bit 24 (ucast (buff ! 17)) :: u32);
         message_ext = (data AND push_bit 4 1 \<noteq> 0)
     in \<lparr>id' = (if message_ext then reorderRx ident else ident),
         ext = message_ext,
         rtr = (data AND push_bit 5 1 \<noteq> 0),
         idx = ucast (drop_bit 11 data AND 0x1F),
         len = ucast (data AND 0x0F),
         data32_0 = d0,
         data32_1 = d1\<rparr>)"

section \<open>Collaborators outside the file\<close>

text \<open>
  Modelled from the spec: the host platform's SPI peripheral (\<open>SPIClass\<close>) is an external
  collaborator. A driver run sees it through \<open>transfer\<close> and \<open>transfer16\<close> only, so the
  bus is the list of what the driver has sent (\<open>mosi\<close>, oldest first) and the bytes the
  controller answers: \<open>miso k j\<close> is byte \<open>j\<close> of the answer to the \<open>k\<close>-th transfer. Any
  controller behaviour is some \<open>miso\<close>. Chip select, the transaction lock and the clock
  speed are not represented.
\<close>

datatype spi_event = Transfer "u8 list" | Transfer16 u16

record SPIClass =
  miso :: "nat \<Rightarrow> nat \<Rightarrow> u8"
  mosi :: "spi_event list"

definition transfer :: "u8 list \<Rightarrow> SPIClass \<Rightarrow> u8 list \<times> SPIClass" where
  "transfer buff spi =
     (map (miso spi (length (mosi spi))) [0..<length buff],
      spi\<lparr>mosi := mosi spi @ [Transfer buff]\<rparr>)"

definition transfer16 :: "u16 \<Rightarrow> SPIClass \<Rightarrow> SPIClass" where
  "transfer16 w spi = spi\<lparr>mosi := mosi spi @ [Transfer16 w]\<rparr>"

text \<open>
  Modelled from the spec: the software ring buffer of the host-side FIFOs (\<open>ACANBuffer\<close>) is
  an external collaborator: a bounded FIFO of frames with \<open>append\<close> (false when full),
  \<open>remove\<close> (false when empty, the out-parameter then left as it was), \<open>count\<close> and
  \<open>size\<close>.
\<close>

record ACANBuffer =
  mBuffer :: "CANMessage list"
  mSize :: nat

definition ACANBuffer_initWithSize :: "nat \<Rightarrow> ACANBuffer" where
  "ACANBuffer_initWithSize inSize = \<lparr>mBuffer = [], mSize = inSize\<rparr>"

definition ACANBuffer_count :: "ACANBuffer \<Rightarrow> nat" where
  "ACANBuffer_count b = length (mBuffer b)"

definition ACANBuffer_size :: "ACANBuffer \<Rightarrow> nat" where
  "ACANBuffer_size b = mSize b"

definition ACANBuffer_append :: "CANMessage \<Rightarrow> ACANBuffer \<Rightarrow> bool \<times> ACANBuffer" where
  "ACANBuffer_append inMessage b =
     (if ACANBuffer_count b < ACANBuffer_size b
      then (True, b\<lparr>mBuffer := mBuffer b @ [inMessage]\<rparr>)
      else (False, b))"

definition ACANBuffer_remove :: "CANMessage \<Rightarrow> ACANBuffer \<Rightarrow> bool \<times> CANMessage \<times> ACANBuffer" where
  "ACANBuffer_remove outMessage b =
     (case mBuffer b of
        [] \<Rightarrow> (False, outMessage, b)
      | m # ms \<Rightarrow> (True, m, b\<lparr>mBuffer := ms\<rparr>))"

section \<open>The driver\<close>

text \<open>
  A callback is a function pointer of the application: here its identity, \<open>None\<close> for
  \<open>NULL\<close>. \<open>mCallBackFunctionArray\<close> is \<open>None\<close> while the pointer is \<open>NULL\<close>, else the
  allocated array.
\<close>

type_synonym ACANCallBackRoutine = nat

record ACAN2517 =
  mSPI :: SPIClass
  mCS :: u8
  mINT :: u8
  mUsesTXQ :: bool
  mControllerTxFIFOFull :: bool
  mDriverReceiveBuffer :: ACANBuffer
  mDriverTransmitBuffer :: ACANBuffer
  mCallBackFunctionArray :: "ACANCallBackRoutine option list option"

definition ACAN2517_new :: "u8 \<Rightarrow> SPIClass \<Rightarrow> u8 \<Rightarrow> ACAN2517" where
  "ACAN2517_new inCS inSPI inINT =
     \<lparr>mSPI = inSPI, mCS = inCS, mINT = inINT, mUsesTXQ = False,
      mControllerTxFIFOFull = False,
      mDriverReceiveBuffer = ACANBuffer_initWithSize 0,
      mDriverTransmitBuffer = ACANBuffer_initWithSize 0,
      mCallBackFunctionArray = None\<rparr>"

subsection \<open>Register access\<close>

definition mSPI_transfer :: "u8 list \<Rightarrow> ACAN2517 \<Rightarrow> u8 list \<times> ACAN2517" where
  "mSPI_transfer buff s = (let (r, spi) = transfer buff (mSPI s) in (r, s\<lparr>mSPI := spi\<rparr>))"

definition writeCommandSPI :: "u16 \<Rightarrow> ACAN2517 \<Rightarrow> ACAN2517" where
  "writeCommandSPI inRegisterAddress s =
     (let command = (inRegisterAddress AND 0x0FFF) OR push_bit 12 2 :: u16
      in s\<lparr>mSPI := transfer16 command (mSPI s)\<rparr>)"

definition writeWordSPI :: "u32 \<Rightarrow> ACAN2517 \<Rightarrow> ACAN2517" where
  "writeWordSPI inValue s =
     snd (mSPI_transfer [ucast inValue, ucast (drop_bit 8 inValue),
                         ucast (drop_bit 16 inValue), ucast (drop_bit 24 inValue)] s)"

definition writeRegisterSPI :: "u16 \<Rightarrow> u32 \<Rightarrow> ACAN2517 \<Rightarrow> ACAN2517" where
  "writeRegisterSPI inRegisterAddress inValue s =
     writeWordSPI inValue (writeCommandSPI inRegisterAddress s)"

definition readRegisterSPI :: "u16 \<Rightarrow> ACAN2517 \<Rightarrow> u32 \<times> ACAN2517" where
  "readRegisterSPI inRegisterAddress s =
     (let (buff, s') = mSPI_transfer (readCommand inRegisterAddress @ [0, 0, 0, 0]) s;
          result = ucast (buff ! 2) OR push_bit 8 (ucast (buff ! 3))
                   OR push_bit 16 (ucast (buff ! 4)) OR push_bit 24 (ucast (buff ! 5))
      in (result, s'))"

definition writeByteRegisterSPI :: "u16 \<Rightarrow> u8 \<Rightarrow> ACAN2517 \<Rightarrow> ACAN2517" where
  "writeByteRegisterSPI inRegisterAddress inValue s =
     snd (mSPI_transfer (writeCommand inRegisterAddress @ [inValue]) s)"

definition readByteRegisterSPI :: "u16 \<Rightarrow> ACAN2517 \<Rightarrow> u8 \<times> ACAN2517" where
  "readByteRegisterSPI inRegisterAddress s =
     (let (buff, s') = mSPI_transfer (readCommand inRegisterAddress @ [0]) s
      in (buff ! 2, s'))"

subsection \<open>Sending\<close>

definition appendInControllerTxFIFO :: "CANMessage \<Rightarrow> ACAN2517 \<Rightarrow> ACAN2517" where
  "appendInControllerTxFIFO inMessage s =
     (let (ua, s) = readRegisterSPI (C1FIFOUA_REGISTER 2) s;
          ramAddress = (ucast (0x400 + ua) :: u16);
          (_, s) = mSPI_transfer (txBuff ramAddress inMessage) s;
          d = push_bit 0 1 OR push_bit 1 1
      in writeByteRegisterSPI (C1FIFOCON_REGISTER 2 + 1) d s)"

definition enterInTransmitBuffer :: "CANMessage \<Rightarrow> ACAN2517 \<Rightarrow> bool \<times> ACAN2517" where
  "enterInTransmitBuffer inMessage s =
     (if mControllerTxFIFOFull s then
        (let (result, b) = ACANBuffer_append inMessage (mDriverTransmitBuffer s)
         in (result, s\<lparr>mDriverTransmitBuffer := b\<rparr>))
      else
        (let s = appendInControllerTxFIFO inMessage s;
             (status, s) = readByteRegisterSPI (C1FIFOSTA_REGISTER 2) s
         in if status AND 1 = 0 then
              (let d = push_bit 7 1 OR 1;
                   s = writeByteRegisterSPI (C1FIFOCON_REGISTER 2) d s
               in (True, s\<lparr>mControllerTxFIFOFull := True\<rparr>))
            else (True, s)))"

definition sendViaTXQ :: "CANMessage \<Rightarrow> ACAN2517 \<Rightarrow> bool \<times> ACAN2517" where
  "sendViaTXQ inMessage s =
     (let (TXQNotFull, s) =
            (if mUsesTXQ s
             then (let (sta, s') = readByteRegisterSPI C1TXQSTA_REGISTER s in (sta AND 1 \<noteq> 0, s'))
             else (False, s))
      in if TXQNotFull then
           (let (ua, s) = readRegisterSPI C1TXQUA_REGISTER s;
                ramAddress = (ucast (0x400 + ua) :: u16);
                (_, s) = mSPI_transfer (txBuff ramAddress inMessage) s;
                d = push_bit 0 1 OR push_bit 1 1
            in (TXQNotFull, writeByteRegisterSPI (C1TXQCON_REGISTER + 1) d s))
         else (TXQNotFull, s))"

definition tryToSend :: "CANMessage \<Rightarrow> ACAN2517 \<Rightarrow> bool \<times> ACAN2517" where
  "tryToSend inMessage s =
     (if idx inMessage = 0 then enterInTransmitBuffer inMessage s
      else if idx inMessage = 255 then sendViaTXQ inMessage s
      else (False, s))"

subsection \<open>Receiving\<close>

definition available :: "ACAN2517 \<Rightarrow> bool" where
  "available s = (0 < ACANBuffer_count (mDriverReceiveBuffer s))"

definition receive :: "CANMessage \<Rightarrow> ACAN2517 \<Rightarrow> bool \<times> CANMessage \<times> ACAN2517" where
  "receive outMessage s =
     (let (hasReceivedMessage, outMessage, b) = ACANBuffer_remove outMessage (mDriverReceiveBuffer s);
          s = s\<lparr>mDriverReceiveBuffer := b\<rparr>
      in if hasReceivedMessage
         then (hasReceivedMessage, outMessage,
               writeByteRegisterSPI (C1FIFOCON_REGISTER receiveFIFOIndex) 1 s)
         else (hasReceivedMessage, outMessage, s))"

text \<open>
  What \<open>dispatchReceivedMessage\<close> calls, in order: the filter-match callback with the
  filter index, a per-filter callback with the frame. Reading \<open>mCallBackFunctionArray\<close>
  at or beyond its allocated length is undefined behaviour in the source; the model stops
  there with \<open>ArrayIndexOutOfBounds\<close>.
\<close>

datatype callback_call = FilterMatchCall u32 | CallBackCall ACANCallBackRoutine CANMessage

datatype error = ArrayIndexOutOfBounds

definition dispatchReceivedMessage ::
  "bool \<Rightarrow> ACAN2517 \<Rightarrow> error + (bool \<times> callback_call list \<times> ACAN2517)" where
  "dispatchReceivedMessage inFilterMatchCallBack s =
     (let (hasReceived, receivedMessage, s) = receive CANMessage_default s
      in if hasReceived then
           (let filterIndex = (ucast (idx receivedMessage) :: u32);
                calls = (if inFilterMatchCallBack then [FilterMatchCall filterIndex] else [])
            in case mCallBackFunctionArray s of
                 None \<Rightarrow> Inr (hasReceived, calls, s)
               | Some array \<Rightarrow>
                   if unat filterIndex < length array then
                     (case array ! unat filterIndex of
                        None \<Rightarrow> Inr (hasReceived, calls, s)
                      | Some callBackFunction \<Rightarrow>
                          Inr (hasReceived, calls @ [CallBackCall callBackFunction receivedMessage], s))
                   else Inl ArrayIndexOutOfBounds)
         else Inr (hasReceived, [], s))"

subsection \<open>Interrupt service\<close>

definition transmitInterrupt :: "ACAN2517 \<Rightarrow> ACAN2517" where
  "transmitInterrupt s =
     (let (_, message, b) = ACANBuffer_remove CANMessage_default (mDriverTransmitBuffer s);
          s = s\<lparr>mDriverTransmitBuffer := b\<rparr>;
          s = appendInControllerTxFIFO message s
      in if ACANBuffer_count (mDriverTransmitBuffer s) = 0 then
           (let d = push_bit 7 1;
                s = writeByteRegisterSPI (C1FIFOCON_REGISTER 2) d s
            in s\<lparr>mControllerTxFIFOFull := False\<rparr>)
         else s)"

definition receiveInterrupt :: "ACAN2517 \<Rightarrow> ACAN2517" where
  "receiveInterrupt s =
     (let (_, s) = readByteRegisterSPI (C1FIFOSTA_REGISTER receiveFIFOIndex) s;
          (ua, s) = readRegisterSPI (C1FIFOUA_REGISTER receiveFIFOIndex) s;
          ramAddress = (ucast (0x400 + ua) :: u16);
          (buff, s) = mSPI_transfer (readCommand ramAddress @ replicate 16 0) s;
          message = rxMessage buff;
          (_, b) = ACANBuffer_append message (mDriverReceiveBuffer s);
          s = s\<lparr>mDriverReceiveBuffer := b\<rparr>;
          d = push_bit 0 1;
          s = writeByteRegisterSPI (C1FIFOCON_REGISTER receiveFIFOIndex + 1) d s
      in if ACANBuffer_count (mDriverReceiveBuffer s) = ACANBuffer_size (mDriverReceiveBuffer s)
         then writeByteRegisterSPI (C1FIFOCON_REGISTER receiveFIFOIndex) 0 s
         else s)"

definition isr_core :: "ACAN2517 \<Rightarrow> bool \<times> ACAN2517" where
  "isr_core s =
     (let handled = False;
          (intReg, s) = readRegisterSPI C1INT_REGISTER s;
          (handled, s) = (if intReg AND push_bit 1 1 \<noteq> 0
                          then (True, receiveInterrupt s) else (handled, s));
          (handled, s) = (if intReg AND push_bit 0 1 \<noteq> 0
                          then (True, transmitInterrupt s) else (handled, s));
          s = (if intReg AND push_bit 2 1 \<noteq> 0
               then writeByteRegisterSPI C1INT_REGISTER (push_bit 2 1) s else s);
          s = (if intReg AND push_bit 3 1 \<noteq> 0
               then writeByteRegisterSPI C1INT_REGISTER (push_bit 3 1) s else s);
          s = (if intReg AND push_bit 12 1 \<noteq> 0
               then writeByteRegisterSPI (C1INT_REGISTER + 1) (push_bit 4 1) s else s)
      in (handled, s))"



section \<open>Bring-up\<close>

text \<open>
  Modelled from the spec: the error bits of \<open>begin\<close> are constants of a header that is not
  part of the sources; the specification names them and says they are bits of one 32-bit
  mask. They are a parameter of the model.
\<close>

record ErrorCodes =
  kRequestedConfigurationModeTimeOut :: u32
  kReadBackErrorWith1MHzSPIClock :: u32
  kTooFarFromDesiredBitRate :: u32
  kInconsistentBitRateSettings :: u32
  kINTPinIsNotAnInterrupt :: u32
  kReadBackErrorWithFullSpeedSPIClock :: u32
  kISRIsNull :: u32
  kISRNotNullAndNoIntPin :: u32
  kControllerTXQSizeGreaterThan32 :: u32
  kControllerTXQPriorityGreaterThan31 :: u32
  kControllerReceiveFIFOSizeIsZero :: u32
  kControllerReceiveFIFOSizeGreaterThan32 :: u32
  kControllerTransmitFIFOSizeIsZero :: u32
  kControllerTransmitFIFOSizeGreaterThan32 :: u32
  kControllerTransmitFIFOPriorityGreaterThan31 :: u32
  kControllerRamUsageGreaterThan2048 :: u32
  kMoreThan32Filters :: u32
  kFilterDefinitionError :: u32
  kX10PLLNotReadyWithin1MS :: u32
  kRequestedModeTimeOut :: u32

text \<open>
  Modelled from the spec: the settings structure, the filter list and the host platform
  are external collaborators. The settings carry the fields \<open>begin\<close> reads; what \<open>begin\<close>
  obtains from a method of the settings (\<open>CANBitSettingConsistency\<close>, \<open>ramUsage\<close>,
  \<open>oscillator\<close>) is a field as well. The \<open>CLKO\<close> pin setting is a divisor code 0 to 3 or
  the \<open>SOF\<close> sentinel. A filter list is the chain of filters from \<open>mFirstFilter\<close>, its
  \<open>filterCount\<close> their number.
\<close>

datatype Oscillator =
  OSC_4MHz | OSC_4MHz_DIVIDED_BY_2 | OSC_4MHz10xPLL | OSC_4MHz10xPLL_DIVIDED_BY_2
  | OSC_20MHz | OSC_20MHz_DIVIDED_BY_2 | OSC_40MHz | OSC_40MHz_DIVIDED_BY_2

datatype CLKOpin = CLKO_DIVIDED_BY_1 | CLKO_DIVIDED_BY_2 | CLKO_DIVIDED_BY_4 | CLKO_DIVIDED_BY_10 | SOF

fun CLKOpin_code :: "CLKOpin \<Rightarrow> u8" where
  "CLKOpin_code CLKO_DIVIDED_BY_1 = 0"
| "CLKOpin_code CLKO_DIVIDED_BY_2 = 1"
| "CLKOpin_code CLKO_DIVIDED_BY_4 = 2"
| "CLKOpin_code CLKO_DIVIDED_BY_10 = 3"
| "CLKOpin_code SOF = 4"

record ACAN2517Settings =
  mBitRateClosedToDesiredRate :: bool
  CANBitSettingConsistency :: u32
  mBitRatePrescaler :: u32
  mPhaseSegment1 :: u32
  mPhaseSegment2 :: u32
  mSJW :: u32
  oscillator :: Oscillator
  mCLKOPin :: CLKOpin
  mTXCANIsOpenDrain :: bool
  mINTIsOpenDrain :: bool
  mRequestedMode :: u8
  mControllerTransmitFIFOSize :: u8
  mControllerReceiveFIFOSize :: u8
  mControllerTransmitFIFOPriority :: u8
  mControllerTransmitFIFORetransmissionAttempts :: u8
  mControllerTXQSize :: u8
  mControllerTXQBufferPriority :: u8
  mControllerTXQBufferRetransmissionAttempts :: u8
  mDriverTransmitFIFOSize :: nat
  mDriverReceiveFIFOSize :: nat
  ramUsage :: u32

record Filter =
  mFilterMask :: u32
  mAcceptanceFilter :: u32
  mCallBackRoutine :: "ACANCallBackRoutine option"

datatype FilterStatus = kFiltersOk | kFilterError

record ACAN2517Filters =
  mFirstFilter :: "Filter list"
  filterStatus :: FilterStatus

definition filterCount :: "ACAN2517Filters \<Rightarrow> nat" where
  "filterCount inFilters = length (mFirstFilter inFilters)"

text \<open>
  Modelled from the spec: of the host platform, \<open>begin\<close> uses the pin-to-interrupt table,
  the millisecond clock and \<open>attachInterrupt\<close>. \<open>millis_at n\<close> is what the \<open>n\<close>-th call of
  \<open>millis()\<close> returns; \<open>attachedInterrupts\<close> lists the calls of \<open>attachInterrupt\<close>. Pin
  modes are not represented.
\<close>

record Arduino =
  digitalPinToInterrupt :: "u8 \<Rightarrow> 8 word"
  NOT_AN_INTERRUPT :: "8 word"
  millis_at :: "nat \<Rightarrow> u32"
  millis_calls :: nat
  attachedInterrupts :: "(8 word \<times> nat option) list"

definition millis :: "Arduino \<Rightarrow> u32 \<times> Arduino" where
  "millis pf = (millis_at pf (millis_calls pf), pf\<lparr>millis_calls := Suc (millis_calls pf)\<rparr>)"

definition attachInterrupt :: "8 word \<Rightarrow> nat option \<Rightarrow> Arduino \<Rightarrow> Arduino" where
  "attachInterrupt itPin inInterruptServiceRoutine pf =
     pf\<lparr>attachedInterrupts := attachedInterrupts pf @ [(itPin, inInterruptServiceRoutine)]\<rparr>"

subsection \<open>Register access under the transaction lock\<close>

definition writeByteRegister :: "u16 \<Rightarrow> u8 \<Rightarrow> ACAN2517 \<Rightarrow> ACAN2517" where
  "writeByteRegister inRegisterAddress inValue s = writeByteRegisterSPI inRegisterAddress inValue s"

definition readByteRegister :: "u16 \<Rightarrow> ACAN2517 \<Rightarrow> u8 \<times> ACAN2517" where
  "readByteRegister inRegisterAddress s = readByteRegisterSPI inRegisterAddress s"

definition writeRegister :: "u16 \<Rightarrow> u32 \<Rightarrow> ACAN2517 \<Rightarrow> ACAN2517" where
  "writeRegister inRegisterAddress inValue s = writeRegisterSPI inRegisterAddress inValue s"

definition readRegister :: "u16 \<Rightarrow> ACAN2517 \<Rightarrow> u32 \<times> ACAN2517" where
  "readRegister inRegisterAddress s = readRegisterSPI inRegisterAddress s"

definition reset2517FD :: "ACAN2517 \<Rightarrow> ACAN2517" where
  "reset2517FD s = s\<lparr>mSPI := transfer16 0x00 (mSPI s)\<rparr>"

subsection \<open>The steps of \<open>begin\<close>\<close>

text \<open>The checks of the settings, in the order of the source; their result is \<open>errorCode\<close>.\<close>

definition begin_checkSettings ::
  "ErrorCodes \<Rightarrow> ACAN2517Settings \<Rightarrow> nat option \<Rightarrow> ACAN2517Filters \<Rightarrow> Arduino \<Rightarrow> ACAN2517 \<Rightarrow> u32"
where
  "begin_checkSettings k inSettings inInterruptServiceRoutine inFilters pf s =
     (let errorCode = 0;
          errorCode = (if \<not> mBitRateClosedToDesiredRate inSettings
                       then errorCode OR kTooFarFromDesiredBitRate k else errorCode);
          errorCode = (if CANBitSettingConsistency inSettings \<noteq> 0
                       then errorCode OR kInconsistentBitRateSettings k else errorCode);
          itPin = digitalPinToInterrupt pf (mINT s);
          errorCode = (if mINT s \<noteq> 255 \<and> itPin = NOT_AN_INTERRUPT pf
                       then kINTPinIsNotAnInterrupt k else errorCode);
          errorCode = (if mINT s \<noteq> 255 \<and> inInterruptServiceRoutine = None
                       then errorCode OR kISRIsNull k else errorCode);
          errorCode = (if mINT s = 255 \<and> inInterruptServiceRoutine \<noteq> None
                       then errorCode OR kISRNotNullAndNoIntPin k else errorCode);
          errorCode = (if 32 < mControllerTXQSize inSettings
                       then errorCode OR kControllerTXQSizeGreaterThan32 k else errorCode);
          errorCode = (if 31 < mControllerTXQBufferPriority inSettings
                       then errorCode OR kControllerTXQPriorityGreaterThan31 k else errorCode);
          errorCode = (if mControllerReceiveFIFOSize inSettings = 0
                       then errorCode OR kControllerReceiveFIFOSizeIsZero k
                       else if 32 < mControllerReceiveFIFOSize inSettings
                       then errorCode OR kControllerReceiveFIFOSizeGreaterThan32 k else errorCode);
          errorCode = (if mControllerTransmitFIFOSize inSettings = 0
                       then errorCode OR kControllerTransmitFIFOSizeIsZero k
                       else if 32 < mControllerTransmitFIFOSize inSettings
                       then errorCode OR kControllerTransmitFIFOSizeGreaterThan32 k else errorCode);
          errorCode = (if 31 < mControllerTransmitFIFOPriority inSettings
                       then errorCode OR kControllerTransmitFIFOPriorityGreaterThan31 k
                       else errorCode);
          errorCode = (if 2048 < ramUsage inSettings
                       then errorCode OR kControllerRamUsageGreaterThan2048 k else errorCode);
          errorCode = (if 32 < filterCount inFilters
                       then errorCode OR kMoreThan32Filters k else errorCode)
      in if filterStatus inFilters \<noteq> kFiltersOk
         then errorCode OR kFilterDefinitionError k else errorCode)"

text \<open>
  The two loops that wait for a mode of the controller: each reads \<open>C1CON+2\<close> until bits 5
  to 7 hold the mode, and gives up when \<open>millis()\<close> has reached the deadline. The result
  says whether it gave up; \<open>None\<close> when the loop never ends.
\<close>

partial_function (option) waitForMode ::
  "u8 \<Rightarrow> u32 \<Rightarrow> Arduino \<Rightarrow> ACAN2517 \<Rightarrow> (bool \<times> Arduino \<times> ACAN2517) option" where
  "waitForMode mode deadline pf s =
     (let (r, s) = readByteRegister (C1CON_REGISTER + 2) s;
          actualMode = drop_bit 5 r AND 0x07
      in if actualMode \<noteq> mode then
           (let (now, pf) = millis pf
            in if deadline \<le> now then Some (True, pf, s)
               else waitForMode mode deadline pf s)
         else Some (False, pf, s))"

text \<open>The loop that waits for the PLL: it reads \<open>OSC+1\<close> until bit 2 is set.\<close>

partial_function (option) waitForPLL ::
  "u32 \<Rightarrow> Arduino \<Rightarrow> ACAN2517 \<Rightarrow> (bool \<times> Arduino \<times> ACAN2517) option" where
  "waitForPLL deadline pf s =
     (let (r, s) = readByteRegister (OSC_REGISTER + 1) s
      in if r AND 0x4 = 0 then
           (let (now, pf) = millis pf
            in if deadline \<le> now then Some (True, pf, s)
               else waitForPLL deadline pf s)
         else Some (False, pf, s))"

declare waitForMode.simps [code] waitForPLL.simps [code]

definition begin_requestConfiguration ::
  "ErrorCodes \<Rightarrow> u32 \<Rightarrow> Arduino \<Rightarrow> ACAN2517 \<Rightarrow> (u32 \<times> Arduino \<times> ACAN2517) option" where
  "begin_requestConfiguration k errorCode pf s =
     (if errorCode = 0 then
        (let s = writeByteRegister (C1CON_REGISTER + 3) (0x04 OR push_bit 3 1) s;
             (now, pf) = millis pf;
             deadline = now + 2
         in Option.bind (waitForMode 0x04 deadline pf s)
              (\<lambda>(timedOut, pf, s).
                 Some (if timedOut then errorCode OR kRequestedConfigurationModeTimeOut k
                       else errorCode,
                       pf, reset2517FD s)))
      else Some (errorCode, pf, s))"

text \<open>
  The read-back test of the RAM word at \<open>0x400\<close>, with the error constant of the clock
  speed it runs at: \<open>for (i = 1; (i != 0) && (errorCode == 0); i <<= 1)\<close>.
\<close>

function begin_readBack :: "u32 \<Rightarrow> u32 \<Rightarrow> u32 \<Rightarrow> ACAN2517 \<Rightarrow> u32 \<times> ACAN2517" where
  "begin_readBack kError i errorCode s =
     (if i \<noteq> 0 \<and> errorCode = 0 then
        (let s = writeRegister 0x400 i s;
             (readBackValue, s) = readRegister 0x400 s
         in begin_readBack kError (push_bit 1 i)
              (if readBackValue \<noteq> i then kError else errorCode) s)
      else (errorCode, s))"
  by pat_completeness auto
termination
proof (relation "measure (\<lambda>(k, i, e, s). unat (word_reverse i))", goal_cases)
  case 1
  then show ?case by simp
next
  case (2 kError i errorCode s x xa y)
  have r: "\<And>m. word_reverse (push_bit m i) = drop_bit m (word_reverse i)"
  proof (rule bit_word_eqI)
    fix m n :: nat assume "n < LENGTH(32)"
    then show "bit (word_reverse (push_bit m i)) n = bit (drop_bit m (word_reverse i)) n"
      by (cases "n + m < 32") (auto simp add: bit_simps ac_simps)
  qed
  have z: "word_reverse (0 :: u32) = 0"
    by (rule bit_word_eqI) (simp add: bit_simps)
  have "i \<noteq> 0" using 2 by simp
  then have "word_reverse i \<noteq> 0" using z word_rev_gal [of i 0] by auto
  then have "0 < unat (word_reverse i)" by (simp add: unat_gt_0)
  then have "unat (word_reverse (push_bit 1 i)) < unat (word_reverse i)"
    unfolding r by (simp add: drop_bit_eq_div unat_div)
  then show ?case by simp
qed

definition begin_setOscillator ::
  "ErrorCodes \<Rightarrow> ACAN2517Settings \<Rightarrow> u32 \<Rightarrow> Arduino \<Rightarrow> ACAN2517
     \<Rightarrow> (u32 \<times> Arduino \<times> ACAN2517) option" where
  "begin_setOscillator k inSettings errorCode pf s =
     (if errorCode = 0 then
        (let (pll, osc) =
               (case oscillator inSettings of
                  OSC_4MHz \<Rightarrow> (0, 0)
                | OSC_20MHz \<Rightarrow> (0, 0)
                | OSC_40MHz \<Rightarrow> (0, 0)
                | OSC_4MHz_DIVIDED_BY_2 \<Rightarrow> (0, push_bit 4 1)
                | OSC_20MHz_DIVIDED_BY_2 \<Rightarrow> (0, push_bit 4 1)
                | OSC_40MHz_DIVIDED_BY_2 \<Rightarrow> (0, push_bit 4 1)
                | OSC_4MHz10xPLL_DIVIDED_BY_2 \<Rightarrow> (1, push_bit 4 1)
                | OSC_4MHz10xPLL \<Rightarrow> (1, 0));
             osc = osc OR pll;
             osc = (if mCLKOPin inSettings \<noteq> SOF
                    then osc OR push_bit 5 (CLKOpin_code (mCLKOPin inSettings)) else osc);
             s = writeByteRegister OSC_REGISTER osc s
         in if pll \<noteq> (0 :: u8) then
              (let (now, pf) = millis pf;
                   deadline = now + 2
               in Option.bind (waitForPLL deadline pf s)
                    (\<lambda>(timedOut, pf, s).
                       Some (if timedOut then kX10PLLNotReadyWithin1MS k else errorCode, pf, s)))
            else Some (errorCode, pf, s))
      else Some (errorCode, pf, s))"

text \<open>\<open>for (address = 0x400; address < 0xC00; address += 4) writeRegister (address, 0)\<close>\<close>

function begin_resetRAM :: "u16 \<Rightarrow> ACAN2517 \<Rightarrow> ACAN2517" where
  "begin_resetRAM address s =
     (if address < 0xC00 then begin_resetRAM (address + 4) (writeRegister address 0 s) else s)"
  by pat_completeness auto
termination
  apply (relation "measure (\<lambda>(a, s). 0xC00 - unat a)")
   apply simp
  apply (simp add: word_less_nat_alt unat_word_ariths)
  done

text \<open>
  The loop over the filters. \<open>filterIndex\<close> is a \<open>uint8_t\<close>. The callback array has
  \<open>filterCount\<close> entries, one per filter of the list, so the loop writes each entry once
  and none beyond the array.
\<close>

fun begin_configureFilters :: "Filter list \<Rightarrow> u8 \<Rightarrow> ACAN2517 \<Rightarrow> ACAN2517" where
  "begin_configureFilters [] filterIndex s = s"
| "begin_configureFilters (filter' # mNextFilter) filterIndex s =
     (let s = s\<lparr>mCallBackFunctionArray :=
                  map_option (\<lambda>array. array[unat filterIndex := mCallBackRoutine filter'])
                    (mCallBackFunctionArray s)\<rparr>;
          s = writeRegister (C1MASK_REGISTER (ucast filterIndex)) (mFilterMask filter') s;
          s = writeRegister (C1FLTOBJ_REGISTER (ucast filterIndex)) (mAcceptanceFilter filter') s;
          d = push_bit 7 1 OR 1;
          s = writeByteRegister (C1FLTCON_REGISTER (ucast filterIndex)) d s
      in begin_configureFilters mNextFilter (filterIndex + 1) s)"

definition begin_configure ::
  "ErrorCodes \<Rightarrow> ACAN2517Settings \<Rightarrow> nat option \<Rightarrow> ACAN2517Filters \<Rightarrow> u32 \<Rightarrow> Arduino
     \<Rightarrow> ACAN2517 \<Rightarrow> (u32 \<times> Arduino \<times> ACAN2517) option" where
  "begin_configure k inSettings inInterruptServiceRoutine inFilters errorCode pf s =
     (if errorCode = 0 then
        (let s = s\<lparr>mDriverTransmitBuffer :=
                     ACANBuffer_initWithSize (mDriverTransmitFIFOSize inSettings)\<rparr>;
             s = s\<lparr>mDriverReceiveBuffer :=
                     ACANBuffer_initWithSize (mDriverReceiveFIFOSize inSettings)\<rparr>;
             s = begin_resetRAM 0x400 s;
             d = 0x03;
             d = (if mCLKOPin inSettings = SOF then d OR push_bit 5 1 else d);
             d = (if mTXCANIsOpenDrain inSettings then d OR push_bit 4 1 else d);
             d = (if mINTIsOpenDrain inSettings then d OR push_bit 6 1 else d);
             s = writeByteRegister (IOCON_REGISTER + 3) d s;
             d = push_bit 5 (mControllerTXQBufferRetransmissionAttempts inSettings)
                 OR mControllerTXQBufferPriority inSettings;
             s = writeByteRegister (C1TXQCON_REGISTER + 2) d s;
             s = s\<lparr>mUsesTXQ := (0 < mControllerTXQSize inSettings)\<rparr>;
             d = mControllerTXQSize inSettings - 1;
             s = writeByteRegister (C1TXQCON_REGISTER + 3) d s;
             d = (if mUsesTXQ s then 0x04 else 0x00);
             s = writeByteRegister (C1CON_REGISTER + 2) d s;
             d = mControllerReceiveFIFOSize inSettings - 1;
             s = writeByteRegister (C1FIFOCON_REGISTER 1 + 3) d s;
             d = 1;
             s = writeByteRegister (C1FIFOCON_REGISTER 1) d s;
             d = push_bit 5 (mControllerTransmitFIFORetransmissionAttempts inSettings)
                 OR mControllerTransmitFIFOPriority inSettings;
             s = writeByteRegister (C1FIFOCON_REGISTER 2 + 2) d s;
             d = mControllerTransmitFIFOSize inSettings - 1;
             s = writeByteRegister (C1FIFOCON_REGISTER 2 + 3) d s;
             d = push_bit 7 1;
             s = writeByteRegister (C1FIFOCON_REGISTER 2) d s;
             s = s\<lparr>mCallBackFunctionArray := Some (replicate (filterCount inFilters) None)\<rparr>;
             s = begin_configureFilters (mFirstFilter inFilters) 0 s;
             d = push_bit 1 1 OR push_bit 0 1;
             s = writeByteRegister (C1INT_REGISTER + 2) d s;
             s = writeByteRegister (C1INT_REGISTER + 3) 0 s;
             data = mBitRatePrescaler inSettings - 1;
             data = push_bit 8 data OR (mPhaseSegment1 inSettings - 1);
             data = push_bit 8 data OR (mPhaseSegment2 inSettings - 1);
             data = push_bit 8 data OR (mSJW inSettings - 1);
             s = writeRegister C1NBTCFG_REGISTER data s;
             s = writeByteRegister (C1CON_REGISTER + 3) (mRequestedMode inSettings) s;
             (now, pf) = millis pf;
             deadline = now + 2
         in Option.bind (waitForMode (mRequestedMode inSettings) deadline pf s)
              (\<lambda>(timedOut, pf, s).
                 Some (if timedOut then errorCode OR kRequestedModeTimeOut k else errorCode,
                       if mINT s \<noteq> 255
                       then attachInterrupt (digitalPinToInterrupt pf (mINT s))
                              inInterruptServiceRoutine pf
                       else pf,
                       s)))
      else Some (errorCode, pf, s))"

text \<open>
  \<open>ACAN2517::begin\<close> with a filter list: the error mask it returns, with the platform and the driver
  as it leaves them; \<open>None\<close> when one of its waiting loops never ends.
\<close>

definition ACAN2517_begin ::
  "ErrorCodes \<Rightarrow> ACAN2517Settings \<Rightarrow> nat option \<Rightarrow> ACAN2517Filters \<Rightarrow> Arduino \<Rightarrow> ACAN2517
     \<Rightarrow> (u32 \<times> Arduino \<times> ACAN2517) option" where
  "ACAN2517_begin k inSettings inInterruptServiceRoutine inFilters pf s =
     (let errorCode = begin_checkSettings k inSettings inInterruptServiceRoutine inFilters pf s
      in Option.bind (begin_requestConfiguration k errorCode pf s)
           (\<lambda>(errorCode, pf, s).
              let (errorCode, s) =
                    begin_readBack (kReadBackErrorWith1MHzSPIClock k) 1 errorCode s
              in Option.bind (begin_setOscillator k inSettings errorCode pf s)
                   (\<lambda>(errorCode, pf, s).
                      let (errorCode, s) =
                            begin_readBack (kReadBackErrorWithFullSpeedSPIClock k) 1 errorCode s
                      in begin_configure k inSettings inInterruptServiceRoutine inFilters
                           errorCode pf s)))"

section \<open>Driver states after bring-up\<close>


section \<open>Observing a run\<close>

text \<open>
  \<open>sent s\<close> is everything the driver has put on the bus so far; \<open>logged es s\<close> is \<open>s\<close> after
  the transfers \<open>es\<close>. \<open>answer s k j\<close> is byte \<open>j\<close> of the controller's answer to the
  \<open>k\<close>-th transfer from now, and \<open>answerWord s k\<close> the register word a four-byte read
  assembles from it.
\<close>

definition sent :: "ACAN2517 \<Rightarrow> spi_event list" where
  "sent s = mosi (mSPI s)"

definition logged :: "spi_event list \<Rightarrow> ACAN2517 \<Rightarrow> ACAN2517" where
  "logged es s = s\<lparr>mSPI := (mSPI s)\<lparr>mosi := mosi (mSPI s) @ es\<rparr>\<rparr>"

definition answer :: "ACAN2517 \<Rightarrow> nat \<Rightarrow> nat \<Rightarrow> u8" where
  "answer s k j = miso (mSPI s) (length (mosi (mSPI s)) + k) j"

definition answerWord :: "ACAN2517 \<Rightarrow> nat \<Rightarrow> u32" where
  "answerWord s k = ucast (answer s k 2) OR push_bit 8 (ucast (answer s k 3))
                    OR push_bit 16 (ucast (answer s k 4)) OR push_bit 24 (ucast (answer s k 5))"

text \<open>
  The values written to \<open>C1FIFOCON(2)\<close> by byte-register writes, oldest first, and the
  most recent of them.
\<close>

definition FIFOCON2_writes :: "spi_event list \<Rightarrow> u8 list" where
  "FIFOCON2_writes es =
     concat (map (\<lambda>e. case e of
                         Transfer [c0, c1, v] \<Rightarrow>
                           if [c0, c1] = writeCommand (C1FIFOCON_REGISTER 2) then [v] else []
                       | _ \<Rightarrow> []) es)"

definition lastFIFOCON2 :: "ACAN2517 \<Rightarrow> u8 option" where
  "lastFIFOCON2 s = (case rev (FIFOCON2_writes (sent s)) of [] \<Rightarrow> None | v # _ \<Rightarrow> Some v)"

text \<open>
  \<open>txFlagConsistent s\<close>: the flag \<open>mControllerTxFIFOFull\<close> is set exactly when the value
  last written to \<open>C1FIFOCON(2)\<close> is \<open>0x81\<close>. \<open>quiet s s'\<close>: between \<open>s\<close> and \<open>s'\<close> the
  driver has neither touched that flag, the callback array or the INT pin, nor written to
  \<open>C1FIFOCON(2)\<close>.
\<close>

definition txFlagConsistent :: "ACAN2517 \<Rightarrow> bool" where
  "txFlagConsistent s \<longleftrightarrow> (mControllerTxFIFOFull s \<longleftrightarrow> lastFIFOCON2 s = Some 0x81)"

definition quiet :: "ACAN2517 \<Rightarrow> ACAN2517 \<Rightarrow> bool" where
  "quiet s s' \<longleftrightarrow>
     mControllerTxFIFOFull s' = mControllerTxFIFOFull s
     \<and> FIFOCON2_writes (sent s') = FIFOCON2_writes (sent s)
     \<and> mCallBackFunctionArray s' = mCallBackFunctionArray s
     \<and> mINT s' = mINT s"

text \<open>Concrete inputs for the examples.\<close>

definition extFrame :: "u32 \<Rightarrow> CANMessage" where
  "extFrame i = \<lparr>id' = i, ext = True, rtr = False, idx = 0, len = 8,
      data32_0 = 0x04030201, data32_1 = 0x08070605\<rparr>"

definition quietSPI :: SPIClass where
  "quietSPI = \<lparr>miso = (\<lambda>k j. 0), mosi = []\<rparr>"

definition readySPI :: SPIClass where
  "readySPI = \<lparr>miso = (\<lambda>k j. 0xFF), mosi = []\<rparr>"

text \<open>
  A driver as the constructor leaves it, its host-side FIFOs sized as bring-up sizes them,
  and one whose controller TX FIFO has been seen full.
\<close>

definition demoDriver :: "SPIClass \<Rightarrow> nat \<Rightarrow> nat \<Rightarrow> ACAN2517" where
  "demoDriver spi rxSize txSize =
     (ACAN2517_new 10 spi 255)
       \<lparr>mDriverReceiveBuffer := ACANBuffer_initWithSize rxSize,
        mDriverTransmitBuffer := ACANBuffer_initWithSize txSize\<rparr>"

definition stdFrame :: "u32 \<Rightarrow> u8 \<Rightarrow> CANMessage" where
  "stdFrame i routing = \<lparr>id' = i, ext = False, rtr = False, idx = routing, len = 2,
      data32_0 = 0x0000BBAA, data32_1 = 0\<rparr>"

text \<open>
  Inputs for a bring-up. The error constants are one bit each, in the order of the record.
  The settings pass every check of \<open>begin\<close>; the filter list has two filters, the first
  with a callback. On the platform, pins 2 and 3 can raise an interrupt.
\<close>

definition demoErrorCodes :: ErrorCodes where
  "demoErrorCodes =
     \<lparr>kRequestedConfigurationModeTimeOut = push_bit 0 1,
      kReadBackErrorWith1MHzSPIClock = push_bit 1 1,
      kTooFarFromDesiredBitRate = push_bit 2 1,
      kInconsistentBitRateSettings = push_bit 3 1,
      kINTPinIsNotAnInterrupt = push_bit 4 1,
      kReadBackErrorWithFullSpeedSPIClock = push_bit 5 1,
      kISRIsNull = push_bit 6 1,
      kISRNotNullAndNoIntPin = push_bit 7 1,
      kControllerTXQSizeGreaterThan32 = push_bit 8 1,
      kControllerTXQPriorityGreaterThan31 = push_bit 9 1,
      kControllerReceiveFIFOSizeIsZero = push_bit 10 1,
      kControllerReceiveFIFOSizeGreaterThan32 = push_bit 11 1,
      kControllerTransmitFIFOSizeIsZero = push_bit 12 1,
      kControllerTransmitFIFOSizeGreaterThan32 = push_bit 13 1,
      kControllerTransmitFIFOPriorityGreaterThan31 = push_bit 14 1,
      kControllerRamUsageGreaterThan2048 = push_bit 15 1,
      kMoreThan32Filters = push_bit 16 1,
      kFilterDefinitionError = push_bit 17 1,
      kX10PLLNotReadyWithin1MS = push_bit 18 1,
      kRequestedModeTimeOut = push_bit 19 1\<rparr>"

definition demoSettings :: ACAN2517Settings where
  "demoSettings =
     \<lparr>mBitRateClosedToDesiredRate = True, CANBitSettingConsistency = 0,
      mBitRatePrescaler = 1, mPhaseSegment1 = 63, mPhaseSegment2 = 16, mSJW = 16,
      oscillator = OSC_40MHz, mCLKOPin = CLKO_DIVIDED_BY_10,
      mTXCANIsOpenDrain = False, mINTIsOpenDrain = False, mRequestedMode = 0,
      mControllerTransmitFIFOSize = 32, mControllerReceiveFIFOSize = 32,
      mControllerTransmitFIFOPriority = 0, mControllerTransmitFIFORetransmissionAttempts = 2,
      mControllerTXQSize = 0, mControllerTXQBufferPriority = 31,
      mControllerTXQBufferRetransmissionAttempts = 2,
      mDriverTransmitFIFOSize = 2, mDriverReceiveFIFOSize = 2, ramUsage = 1024\<rparr>"

definition demoFilters :: ACAN2517Filters where
  "demoFilters =
     \<lparr>mFirstFilter =
        [\<lparr>mFilterMask = 0x7FF, mAcceptanceFilter = 0x100, mCallBackRoutine = Some 0\<rparr>,
         \<lparr>mFilterMask = 0x7FF, mAcceptanceFilter = 0x200, mCallBackRoutine = None\<rparr>],
      filterStatus = kFiltersOk\<rparr>"

definition demoArduino :: Arduino where
  "demoArduino =
     \<lparr>digitalPinToInterrupt = (\<lambda>pin. if pin = 2 then 0 else if pin = 3 then 1 else 255),
      NOT_AN_INTERRUPT = 255, millis_at = (\<lambda>n. of_nat n), millis_calls = 0,
      attachedInterrupts = []\<rparr>"

text \<open>
  A controller that lets \<open>begin\<close> through: it reports configuration mode to the first
  read of \<open>C1CON+2\<close> (transfer 1), gives back the word written in each of the 32 rounds of
  the two read-back tests (the reads are transfers 5, 8, ... 98 and 102, 105, ... 195),
  and answers the byte \<open>c\<close> to everything else. \<open>demoUp c\<close> is the driver \<open>begin\<close> leaves on
  that controller, the INT pin on pin 2, when the requested mode is the one that \<open>c\<close>
  reports.
\<close>

definition echoSPI :: "u8 \<Rightarrow> SPIClass" where
  "echoSPI c =
     \<lparr>miso = (\<lambda>k j.
         if k = 1 then 0x80
         else if 5 \<le> k \<and> k \<le> 98 \<and> (k - 5) mod 3 = 0
           then ucast (drop_bit (8 * (j - 2)) (push_bit ((k - 5) div 3) 1 :: u32))
         else if 102 \<le> k \<and> k \<le> 195 \<and> (k - 102) mod 3 = 0
           then ucast (drop_bit (8 * (j - 2)) (push_bit ((k - 102) div 3) 1 :: u32))
         else c),
      mosi = []\<rparr>"

definition demoUp :: "u8 \<Rightarrow> ACAN2517" where
  "demoUp c =
     (case ACAN2517_begin demoErrorCodes
             (demoSettings\<lparr>mRequestedMode := drop_bit 5 c AND 0x07\<rparr>)
             (Some 7) demoFilters demoArduino (ACAN2517_new 10 (echoSPI c) 2) of
        Some (errorCode, pf, s) \<Rightarrow> s
      | None \<Rightarrow> ACAN2517_new 10 (echoSPI c) 2)"
section \<open>Verification\<close>

subsection \<open>Words and bytes\<close>

lemma le32_reassemble:
  "(ucast (ucast (w::u32) :: u8) OR push_bit 8 (ucast (ucast (drop_bit 8 w) :: u8))
    OR push_bit 16 (ucast (ucast (drop_bit 16 w) :: u8))
    OR push_bit 24 (ucast (ucast (drop_bit 24 w) :: u8)) :: u32) = w"
proof (rule bit_word_eqI)
  fix n :: nat assume "n < LENGTH(32)"
  then have n: "n < 32" by simp
  consider "n < 8" | "8 \<le> n" "n < 16" | "16 \<le> n" "n < 24" | "24 \<le> n" "n < 32"
    using n by linarith
  then show "bit (ucast (ucast (w::u32) :: u8) OR push_bit 8 (ucast (ucast (drop_bit 8 w) :: u8))
    OR push_bit 16 (ucast (ucast (drop_bit 16 w) :: u8))
    OR push_bit 24 (ucast (ucast (drop_bit 24 w) :: u8)) :: u32) n = bit w n"
    by cases (auto simp add: bit_simps)
qed

lemma m4: "(0x0F :: u32) = mask 4" by (simp add: mask_eq_exp_minus_1)
lemma m5: "(0x1F :: u32) = mask 5" by (simp add: mask_eq_exp_minus_1)
lemma m11: "(0x7FF :: u32) = mask 11" by (simp add: mask_eq_exp_minus_1)
lemma m18: "(0x3FFFF :: u32) = mask 18" by (simp add: mask_eq_exp_minus_1)

lemma id29_high_bits:
  fixes i :: u32
  assumes "i < 2 ^ 29" and "29 \<le> k"
  shows "\<not> bit i k"
proof -
  have "i AND mask 29 = i" using assms(1) by (rule less_mask_eq)
  then have "bit i k = bit (i AND mask 29) k" by simp
  then show ?thesis using assms(2) by (simp add: bit_simps)
qed

lemma reorderRx_reorderTx:
  assumes "i < 2 ^ 29"
  shows "reorderRx (reorderTx i) = i"
proof (rule bit_word_eqI)
  fix n :: nat assume "n < LENGTH(32)"
  then have n: "n < 32" by simp
  note hi = id29_high_bits [OF assms]
  consider "n < 18" | "18 \<le> n" "n < 29" | "29 \<le> n" "n < 32"
    using n by linarith
  then show "bit (reorderRx (reorderTx i)) n = bit i n"
    unfolding reorderRx_def reorderTx_def m11 m18
    by cases (auto simp add: bit_simps hi)
qed

lemma reorderTx_reorderRx:
  assumes "i < 2 ^ 29"
  shows "reorderTx (reorderRx i) = i"
proof (rule bit_word_eqI)
  fix n :: nat assume "n < LENGTH(32)"
  then have n: "n < 32" by simp
  note hi = id29_high_bits [OF assms]
  consider "n < 11" | "11 \<le> n" "n < 29" | "29 \<le> n" "n < 32"
    using n by linarith
  then show "bit (reorderTx (reorderRx i)) n = bit i n"
    unfolding reorderRx_def reorderTx_def m11 m18
    by cases (auto simp add: bit_simps hi)
qed

lemma len_high_bits:
  fixes l :: u8
  assumes "l \<le> 8" and "4 \<le> k"
  shows "\<not> bit l k"
proof -
  have "l < 2 ^ 4" using assms(1) by (simp add: word_le_nat_alt word_less_nat_alt)
  then have "l AND mask 4 = l" by (rule less_mask_eq)
  then have "bit l k = bit (l AND mask 4) k" by simp
  then show ?thesis using assms(2) by (simp add: bit_simps)
qed

text \<open>The control word holds the length in bits 0 to 3, IDE in bit 4, RTR in bit 5.\<close>

lemma txData_bit:
  assumes "len m \<le> 8"
  shows "bit (txData m) n = (n < 4 \<and> bit (len m) n \<or> n = 4 \<and> ext m \<or> n = 5 \<and> rtr m)"
proof -
  have l: "\<not> 8 < len m" using assms by simp
  have p4: "push_bit 4 (1::u32) = 2 ^ 4" and p5: "push_bit 5 (1::u32) = 2 ^ 5" by simp_all
  show ?thesis
    using len_high_bits [OF assms, of n]
    unfolding txData_def Let_def p4 p5
    by (cases "n < 4") (auto simp add: l bit_simps bit_exp_iff simp del: power_numeral)
qed

lemma and_bit_test: "(w AND push_bit n 1 \<noteq> 0) = bit w n" for w :: u32
  by (simp add: push_bit_eq_mult and_exp_eq_0_iff_not_bit)

lemma txData_ext: "len m \<le> 8 \<Longrightarrow> (txData m AND push_bit 4 1 \<noteq> 0) = ext m"
  unfolding and_bit_test by (simp add: txData_bit)

lemma txData_rtr: "len m \<le> 8 \<Longrightarrow> (txData m AND push_bit 5 1 \<noteq> 0) = rtr m"
  unfolding and_bit_test by (simp add: txData_bit)

lemma txData_len:
  assumes "len m \<le> 8" shows "ucast (txData m AND 0x0F) = len m"
proof (rule bit_word_eqI)
  fix n :: nat assume "n < LENGTH(8)"
  then have n: "n < 8" by simp
  show "bit (ucast (txData m AND 0x0F) :: u8) n = bit (len m) n"
  proof (cases "n < 4")
    case True
    then show ?thesis unfolding m4 using n by (simp add: bit_simps txData_bit [OF assms])
  next
    case False
    then have "\<not> bit (len m) n" using len_high_bits [OF assms, of n] by simp
    then show ?thesis unfolding m4 using False n by (simp add: bit_simps)
  qed
qed

lemma txData_idx:
  assumes "len m \<le> 8" shows "ucast (drop_bit 11 (txData m) AND 0x1F) = (0::u8)"
proof (rule bit_word_eqI)
  fix n :: nat assume "n < LENGTH(8)"
  then show "bit (ucast (drop_bit 11 (txData m) AND 0x1F) :: u8) n = bit (0::u8) n"
    unfolding m5 by (auto simp add: bit_simps txData_bit [OF assms])
qed

lemma cmd_length [simp]: "length (readCommand a) = 2" "length (writeCommand a) = 2"
  by (simp_all add: readCommand_def writeCommand_def Let_def)

text \<open>
  Decoding a buffer whose message-object bytes are the encoded ones gives the frame back,
  with filter-match index 0.
\<close>

lemma rxMessage_txBuff:
  assumes "len m \<le> 8" and "ext m \<longrightarrow> id' m < 2 ^ 29"
    and "drop 2 buff = drop 2 (txBuff ramAddress m)"
  shows "rxMessage buff = m\<lparr>idx := 0\<rparr>"
proof -
  have nth: "\<And>k. buff ! (2 + k) = txBuff ramAddress m ! (2 + k)"
  proof -
    fix k
    have "length (drop 2 buff) = 16" using assms(3) by (simp add: txBuff_def Let_def)
    then have "2 \<le> length buff" by simp
    then have "buff ! (2 + k) = drop 2 buff ! k" by simp
    also have "\<dots> = drop 2 (txBuff ramAddress m) ! k" using assms(3) by simp
    also have "\<dots> = txBuff ramAddress m ! (2 + k)" by (simp add: txBuff_def Let_def nth_append)
    finally show "buff ! (2 + k) = txBuff ramAddress m ! (2 + k)" .
  qed
  have b: "buff ! 2 = txBuff ramAddress m ! 2" "buff ! 3 = txBuff ramAddress m ! 3"
     "buff ! 4 = txBuff ramAddress m ! 4" "buff ! 5 = txBuff ramAddress m ! 5"
     "buff ! 6 = txBuff ramAddress m ! 6" "buff ! 7 = txBuff ramAddress m ! 7"
     "buff ! 8 = txBuff ramAddress m ! 8" "buff ! 9 = txBuff ramAddress m ! 9"
     "buff ! 10 = txBuff ramAddress m ! 10" "buff ! 11 = txBuff ramAddress m ! 11"
     "buff ! 12 = txBuff ramAddress m ! 12" "buff ! 13 = txBuff ramAddress m ! 13"
     "buff ! 14 = txBuff ramAddress m ! 14" "buff ! 15 = txBuff ramAddress m ! 15"
     "buff ! 16 = txBuff ramAddress m ! 16" "buff ! 17 = txBuff ramAddress m ! 17"
    using nth [of 0] nth [of 1] nth [of 2] nth [of 3] nth [of 4] nth [of 5] nth [of 6]
      nth [of 7] nth [of 8] nth [of 9] nth [of 10] nth [of 11] nth [of 12] nth [of 13]
      nth [of 14] nth [of 15] by simp_all
  have idf: "(if ext m then reorderRx (txIdf m) else txIdf m) = id' m"
    using assms(2) by (simp add: txIdf_def reorderRx_reorderTx)
  show ?thesis
    unfolding rxMessage_def b
    by (simp add: txBuff_def Let_def nth_append le32_reassemble txData_ext [OF assms(1)]
        txData_rtr [OF assms(1)] txData_len [OF assms(1)] txData_idx [OF assms(1)] idf
        del: push_bit_of_1)
qed

subsection \<open>The frame codec\<close>

text \<open>
  Claim C1 (codec round-trip). A frame with \<open>len \<le> 8\<close>, and an identifier of at most 29
  bits when it is extended, is encoded into the 18-byte buffer of
  \<open>appendInControllerTxFIFO\<close>; any buffer that carries the same 16 message-object bytes
  (bytes 2 to 17) is decoded by \<open>receiveInterrupt\<close> to the same id, ext, rtr, len and
  payload words. The filter-match index is not compared.
\<close>

theorem codec_round_trip:
  assumes "len m \<le> 8" and "ext m \<longrightarrow> id' m < 2 ^ 29"
    and "drop 2 buff = drop 2 (txBuff ramAddress m)"
  shows "id' (rxMessage buff) = id' m \<and> ext (rxMessage buff) = ext m
       \<and> rtr (rxMessage buff) = rtr m \<and> len (rxMessage buff) = len m
       \<and> data32_0 (rxMessage buff) = data32_0 m \<and> data32_1 (rxMessage buff) = data32_1 m"
  by (simp add: rxMessage_txBuff [OF assms])

text \<open>
  The four extended identifiers the specification singles out, each in a frame of eight
  payload bytes.
\<close>

theorem codec_round_trip_witness:
  "id' (rxMessage (txBuff 0x400 (extFrame 0x00000000))) = 0x00000000 \<and>
   id' (rxMessage (txBuff 0x400 (extFrame 0x1FFFFFFF))) = 0x1FFFFFFF \<and>
   id' (rxMessage (txBuff 0x400 (extFrame 0x000007FF))) = 0x000007FF \<and>
   id' (rxMessage (txBuff 0x400 (extFrame 0x00000800))) = 0x00000800 \<and>
   ext (rxMessage (txBuff 0x400 (extFrame 0x00000800))) \<and>
   len (rxMessage (txBuff 0x400 (extFrame 0x00000800))) = 8 \<and>
   data32_0 (rxMessage (txBuff 0x400 (extFrame 0x00000800))) = 0x04030201 \<and>
   data32_1 (rxMessage (txBuff 0x400 (extFrame 0x00000800))) = 0x08070605"
  using codec_round_trip [of "extFrame 0x00000000" "txBuff 0x400 (extFrame 0x00000000)" "0x400"]
    codec_round_trip [of "extFrame 0x1FFFFFFF" "txBuff 0x400 (extFrame 0x1FFFFFFF)" "0x400"]
    codec_round_trip [of "extFrame 0x000007FF" "txBuff 0x400 (extFrame 0x000007FF)" "0x400"]
    codec_round_trip [of "extFrame 0x00000800" "txBuff 0x400 (extFrame 0x00000800)" "0x400"]
  by (simp add: extFrame_def)

text \<open>
  Claim C3, as stated (the reorder transform applied twice yields the identifier), fails:
  the transmit reordering moves the low 18 bits up by 11 and the high 11 bits down by 18,
  so applying it twice to the 29-bit identifier 1 gives \<open>0x400000\<close>; the receive
  reordering applied twice gives \<open>0x80\<close>.
\<close>

theorem reorder_not_involution:
  "(1::u32) < 2 ^ 29 \<and> reorderTx (reorderTx 1) = 0x400000 \<and> reorderTx (reorderTx 1) \<noteq> 1
   \<and> reorderRx (reorderRx 1) = 0x80 \<and> reorderRx (reorderRx 1) \<noteq> 1"
  by (simp add: reorderTx_def reorderRx_def)

text \<open>
  Claim C3, amended: on 29-bit identifiers the transmit and the receive reordering are
  inverse to each other, in both orders.
\<close>

theorem reorder_inverse:
  "i < 2 ^ 29 \<Longrightarrow> reorderRx (reorderTx i) = i \<and> reorderTx (reorderRx i) = i"
  by (simp add: reorderRx_reorderTx reorderTx_reorderRx)

theorem reorder_inverse_witness:
  "reorderTx 0x800 = 0x400000 \<and> reorderRx (reorderTx 0x800) = 0x800
   \<and> reorderTx (reorderRx 0x800) = 0x800"
  using reorder_inverse [of "0x800"] by (simp add: reorderTx_def)

subsection \<open>What each operation puts on the bus\<close>

lemma logged_simps [simp]:
  "mSPI (logged es s) = (mSPI s)\<lparr>mosi := mosi (mSPI s) @ es\<rparr>"
  "mCS (logged es s) = mCS s" "mINT (logged es s) = mINT s"
  "mUsesTXQ (logged es s) = mUsesTXQ s"
  "mControllerTxFIFOFull (logged es s) = mControllerTxFIFOFull s"
  "mDriverReceiveBuffer (logged es s) = mDriverReceiveBuffer s"
  "mDriverTransmitBuffer (logged es s) = mDriverTransmitBuffer s"
  "mCallBackFunctionArray (logged es s) = mCallBackFunctionArray s"
  "sent (logged es s) = sent s @ es"
  "answerWord (logged es s) k = answerWord s (length es + k)"
  "logged es (logged fs s) = logged (fs @ es) s"
  "logged es (s\<lparr>mDriverReceiveBuffer := rb\<rparr>) = (logged es s)\<lparr>mDriverReceiveBuffer := rb\<rparr>"
  "logged es (s\<lparr>mDriverTransmitBuffer := tb\<rparr>) = (logged es s)\<lparr>mDriverTransmitBuffer := tb\<rparr>"
  "logged es (s\<lparr>mControllerTxFIFOFull := f\<rparr>) = (logged es s)\<lparr>mControllerTxFIFOFull := f\<rparr>"
  by (simp_all add: logged_def sent_def answer_def answerWord_def add.assoc)

lemma observe_update [simp]:
  "sent (s\<lparr>mDriverReceiveBuffer := rb\<rparr>) = sent s"
  "sent (s\<lparr>mDriverTransmitBuffer := tb\<rparr>) = sent s"
  "sent (s\<lparr>mControllerTxFIFOFull := f\<rparr>) = sent s"
  "answer (s\<lparr>mDriverReceiveBuffer := rb\<rparr>) = answer s"
  "answer (s\<lparr>mDriverTransmitBuffer := tb\<rparr>) = answer s"
  "answer (s\<lparr>mControllerTxFIFOFull := f\<rparr>) = answer s"
  "answerWord (s\<lparr>mDriverReceiveBuffer := rb\<rparr>) = answerWord s"
  "answerWord (s\<lparr>mDriverTransmitBuffer := tb\<rparr>) = answerWord s"
  "answerWord (s\<lparr>mControllerTxFIFOFull := f\<rparr>) = answerWord s"
  by (simp_all add: sent_def answer_def answerWord_def fun_eq_iff)

lemma answer_logged [simp]: "answer (logged es s) k = answer s (length es + k)"
  by (simp add: fun_eq_iff logged_def answer_def add.assoc)

lemma mSPI_transfer_eq:
  "mSPI_transfer buff s = (map (answer s 0) [0..<length buff], logged [Transfer buff] s)"
  by (simp add: mSPI_transfer_def transfer_def logged_def answer_def)

lemma writeByteRegisterSPI_eq:
  "writeByteRegisterSPI a v s = logged [Transfer (writeCommand a @ [v])] s"
  by (simp add: writeByteRegisterSPI_def mSPI_transfer_eq)

lemma readByteRegisterSPI_eq:
  "readByteRegisterSPI a s = (answer s 0 2, logged [Transfer (readCommand a @ [0])] s)"
  by (simp add: readByteRegisterSPI_def mSPI_transfer_eq eval_nat_numeral)

lemma readRegisterSPI_eq:
  "readRegisterSPI a s = (answerWord s 0, logged [Transfer (readCommand a @ [0, 0, 0, 0])] s)"
  by (simp add: readRegisterSPI_def mSPI_transfer_eq answerWord_def eval_nat_numeral)

lemmas access_eq =
  mSPI_transfer_eq writeByteRegisterSPI_eq readByteRegisterSPI_eq readRegisterSPI_eq

lemma command_simps [simp]:
  "writeCommand (C1FIFOCON_REGISTER 2) = [0x20, 0x68]"
  "writeCommand (C1FIFOCON_REGISTER 2 + 1) = [0x20, 0x69]"
  "writeCommand (C1FIFOCON_REGISTER receiveFIFOIndex) = [0x20, 0x5C]"
  "writeCommand (C1FIFOCON_REGISTER receiveFIFOIndex + 1) = [0x20, 0x5D]"
  "writeCommand (C1TXQCON_REGISTER + 1) = [0x20, 0x51]"
  "writeCommand C1INT_REGISTER = [0x20, 0x1C]"
  "writeCommand (C1INT_REGISTER + 1) = [0x20, 0x1D]"
  "readCommand C1INT_REGISTER = [0x30, 0x1C]"
  "readCommand (C1FIFOSTA_REGISTER 2) = [0x30, 0x6C]"
  "readCommand (C1FIFOUA_REGISTER 2) = [0x30, 0x70]"
  "readCommand (C1FIFOSTA_REGISTER receiveFIFOIndex) = [0x30, 0x60]"
  "readCommand (C1FIFOUA_REGISTER receiveFIFOIndex) = [0x30, 0x64]"
  "readCommand C1TXQSTA_REGISTER = [0x30, 0x54]"
  "readCommand C1TXQUA_REGISTER = [0x30, 0x58]"
  by (simp_all add: writeCommand_def readCommand_def C1FIFOCON_REGISTER_def C1FIFOSTA_REGISTER_def
     C1FIFOUA_REGISTER_def receiveFIFOIndex_def C1TXQCON_REGISTER_def C1INT_REGISTER_def
     C1TXQSTA_REGISTER_def C1TXQUA_REGISTER_def)

lemma appendInControllerTxFIFO_eq:
  "appendInControllerTxFIFO m s =
     logged [Transfer [0x30, 0x70, 0, 0, 0, 0],
             Transfer (txBuff (ucast (0x400 + answerWord s 0)) m),
             Transfer [0x20, 0x69, 0x03]] s"
  by (simp add: appendInControllerTxFIFO_def access_eq Let_def)

lemma transmitInterrupt_eq:
  "transmitInterrupt s =
     (let message = (case mBuffer (mDriverTransmitBuffer s) of
                       [] \<Rightarrow> CANMessage_default | m # _ \<Rightarrow> m);
          rest = tl (mBuffer (mDriverTransmitBuffer s));
          es = [Transfer [0x30, 0x70, 0, 0, 0, 0],
                Transfer (txBuff (ucast (0x400 + answerWord s 0)) message),
                Transfer [0x20, 0x69, 0x03]]
      in if rest = []
         then (logged (es @ [Transfer [0x20, 0x68, 0x80]]) s)
                \<lparr>mDriverTransmitBuffer := (mDriverTransmitBuffer s)\<lparr>mBuffer := []\<rparr>,
                  mControllerTxFIFOFull := False\<rparr>
         else (logged es s)
                \<lparr>mDriverTransmitBuffer := (mDriverTransmitBuffer s)\<lparr>mBuffer := rest\<rparr>\<rparr>)"
  by (simp add: transmitInterrupt_def appendInControllerTxFIFO_eq access_eq Let_def split_def
      ACANBuffer_remove_def ACANBuffer_count_def split: list.splits)

lemma receiveInterrupt_eq:
  "receiveInterrupt s =
     (let b = snd (ACANBuffer_append (rxMessage (map (answer s 2) [0..<18]))
                     (mDriverReceiveBuffer s));
          es = [Transfer [0x30, 0x60, 0], Transfer [0x30, 0x64, 0, 0, 0, 0],
                Transfer (readCommand (ucast (0x400 + answerWord s 1)) @ replicate 16 0),
                Transfer [0x20, 0x5D, 0x01]]
      in if ACANBuffer_count b = ACANBuffer_size b
         then (logged (es @ [Transfer [0x20, 0x5C, 0x00]]) s)\<lparr>mDriverReceiveBuffer := b\<rparr>
         else (logged es s)\<lparr>mDriverReceiveBuffer := b\<rparr>)"
  by (simp add: receiveInterrupt_def access_eq Let_def split_def numeral_2_eq_2)

lemma receive_eq:
  "receive out s =
     (case mBuffer (mDriverReceiveBuffer s) of
        [] \<Rightarrow> (False, out, s)
      | m # ms \<Rightarrow>
          (True, m, (logged [Transfer [0x20, 0x5C, 0x01]] s)
                      \<lparr>mDriverReceiveBuffer := (mDriverReceiveBuffer s)\<lparr>mBuffer := ms\<rparr>\<rparr>))"
  by (simp add: receive_def access_eq Let_def ACANBuffer_remove_def split: list.splits)


lemma sendViaTXQ_eq:
  "sendViaTXQ m s =
     (if mUsesTXQ s then
        (if answer s 0 2 AND 1 \<noteq> 0
         then (True, logged [Transfer [0x30, 0x54, 0], Transfer [0x30, 0x58, 0, 0, 0, 0],
                             Transfer (txBuff (ucast (0x400 + answerWord s 1)) m),
                             Transfer [0x20, 0x51, 0x03]] s)
         else (False, logged [Transfer [0x30, 0x54, 0]] s))
      else (False, s))"
  by (simp add: sendViaTXQ_def access_eq Let_def split_def)

lemma isr_core_eq:
  "isr_core s =
     (let intReg = answerWord s 0;
          s0 = logged [Transfer [0x30, 0x1C, 0, 0, 0, 0]] s;
          s1 = (if bit intReg 1 then receiveInterrupt s0 else s0);
          s2 = (if bit intReg 0 then transmitInterrupt s1 else s1);
          s3 = (if bit intReg 2 then logged [Transfer [0x20, 0x1C, 0x04]] s2 else s2);
          s4 = (if bit intReg 3 then logged [Transfer [0x20, 0x1C, 0x08]] s3 else s3);
          s5 = (if bit intReg 12 then logged [Transfer [0x20, 0x1D, 0x10]] s4 else s4)
      in (bit intReg 1 \<or> bit intReg 0, s5))"
proof -
  have t: "\<And>w :: u32. (w AND 2 \<noteq> 0) = bit w 1" "\<And>w :: u32. (w AND 1 \<noteq> 0) = bit w 0"
    "\<And>w :: u32. (w AND 4 \<noteq> 0) = bit w 2" "\<And>w :: u32. (w AND 8 \<noteq> 0) = bit w 3"
    "\<And>w :: u32. (w AND 4096 \<noteq> 0) = bit w 12"
    using and_exp_eq_0_iff_not_bit [where 'a = u32 and n = 1]
      and_exp_eq_0_iff_not_bit [where 'a = u32 and n = 0]
      and_exp_eq_0_iff_not_bit [where 'a = u32 and n = 2]
      and_exp_eq_0_iff_not_bit [where 'a = u32 and n = 3]
      and_exp_eq_0_iff_not_bit [where 'a = u32 and n = 12]
    by simp_all
  show ?thesis
    by (simp add: isr_core_def access_eq Let_def split_def t del: logged_simps(11))
qed

lemma and_1_bit0: "(w AND 1 = 0) = (\<not> bit w 0)" for w :: u8
  using and_exp_eq_0_iff_not_bit [where 'a = u8 and n = 0 and a = w] by simp

lemmas demo_defs =
  demoDriver_def ACAN2517_new_def quietSPI_def readySPI_def ACANBuffer_initWithSize_def
  ACANBuffer_append_def ACANBuffer_remove_def ACANBuffer_count_def ACANBuffer_size_def
  sent_def logged_def answerWord_def answer_def readCommand_def writeCommand_def

subsection \<open>Receive path\<close>

text \<open>
  Claim C5 (RX throttle). When the host RX FIFO is full after the append of the RX handler,
  the handler's last transfer writes \<open>0x00\<close> to \<open>C1FIFOCON(1)\<close> (address \<open>0x05C\<close>).
  \<open>receive\<close> succeeds exactly when the host RX FIFO holds a frame; a successful call makes
  one transfer, the write of \<open>0x01\<close> to \<open>C1FIFOCON(1)\<close>, and a failed call makes none.
\<close>

theorem rx_throttle:
  "(ACANBuffer_count (mDriverReceiveBuffer (receiveInterrupt s))
      = ACANBuffer_size (mDriverReceiveBuffer (receiveInterrupt s)) \<longrightarrow>
    sent (receiveInterrupt s) =
      sent s @ [Transfer [0x30, 0x60, 0], Transfer [0x30, 0x64, 0, 0, 0, 0],
                Transfer (readCommand (ucast (0x400 + answerWord s 1)) @ replicate 16 0),
                Transfer [0x20, 0x5D, 0x01], Transfer [0x20, 0x5C, 0x00]])
   \<and> fst (receive out s) = (mBuffer (mDriverReceiveBuffer s) \<noteq> [])
   \<and> (fst (receive out s) \<longrightarrow>
        sent (snd (snd (receive out s))) = sent s @ [Transfer [0x20, 0x5C, 0x01]])
   \<and> (\<not> fst (receive out s) \<longrightarrow> sent (snd (snd (receive out s))) = sent s)"
  by (simp add: receiveInterrupt_eq receive_eq Let_def split: list.splits)

text \<open>
  A host RX FIFO of one frame: the first RX interrupt fills it and writes \<open>0x00\<close>, the
  \<open>receive\<close> that follows writes \<open>0x01\<close>, and a \<open>receive\<close> on the empty FIFO writes nothing.
\<close>

theorem rx_throttle_witness:
  "sent (receiveInterrupt (demoDriver quietSPI 1 1)) =
     [Transfer [0x30, 0x60, 0], Transfer [0x30, 0x64, 0, 0, 0, 0],
      Transfer ([0x34, 0x00] @ replicate 16 0),
      Transfer [0x20, 0x5D, 0x01], Transfer [0x20, 0x5C, 0x00]]
   \<and> sent (snd (snd (receive CANMessage_default (receiveInterrupt (demoDriver quietSPI 1 1))))) =
     [Transfer [0x30, 0x60, 0], Transfer [0x30, 0x64, 0, 0, 0, 0],
      Transfer ([0x34, 0x00] @ replicate 16 0),
      Transfer [0x20, 0x5D, 0x01], Transfer [0x20, 0x5C, 0x00], Transfer [0x20, 0x5C, 0x01]]
   \<and> \<not> fst (receive CANMessage_default (demoDriver quietSPI 1 1))
   \<and> sent (snd (snd (receive CANMessage_default (demoDriver quietSPI 1 1)))) = []"
  using rx_throttle [of "demoDriver quietSPI 1 1" CANMessage_default]
    rx_throttle [of "receiveInterrupt (demoDriver quietSPI 1 1)" CANMessage_default]
  by (simp add: receiveInterrupt_eq receive_eq Let_def demo_defs)

text \<open>
  Claim C9. The RX handler does not look at what \<open>append\<close> returns: run on a full host RX
  FIFO, the append fails, the FIFO is left as it was (the decoded frame is lost), and the
  handler still writes UINC to \<open>C1FIFOCON(1)+1\<close> (address \<open>0x05D\<close>).
\<close>

theorem receiveInterrupt_drops_when_full:
  assumes "ACANBuffer_count (mDriverReceiveBuffer s) = ACANBuffer_size (mDriverReceiveBuffer s)"
  shows "\<not> fst (ACANBuffer_append (rxMessage (map (answer s 2) [0..<18])) (mDriverReceiveBuffer s))
    \<and> mDriverReceiveBuffer (receiveInterrupt s) = mDriverReceiveBuffer s
    \<and> sent (receiveInterrupt s) =
      sent s @ [Transfer [0x30, 0x60, 0], Transfer [0x30, 0x64, 0, 0, 0, 0],
                Transfer (readCommand (ucast (0x400 + answerWord s 1)) @ replicate 16 0),
                Transfer [0x20, 0x5D, 0x01], Transfer [0x20, 0x5C, 0x00]]"
  using assms by (simp add: receiveInterrupt_eq Let_def ACANBuffer_append_def)

text \<open>A second RX interrupt on a host RX FIFO of one frame that the first one filled.\<close>

theorem receiveInterrupt_drops_when_full_witness:
  "mDriverReceiveBuffer (receiveInterrupt (receiveInterrupt (demoDriver readySPI 1 1)))
     = mDriverReceiveBuffer (receiveInterrupt (demoDriver readySPI 1 1))
   \<and> ACANBuffer_count (mDriverReceiveBuffer (receiveInterrupt (demoDriver readySPI 1 1))) = 1
   \<and> drop 5 (sent (receiveInterrupt (receiveInterrupt (demoDriver readySPI 1 1)))) =
       [Transfer [0x30, 0x60, 0], Transfer [0x30, 0x64, 0, 0, 0, 0],
        Transfer ([0x33, 0xFF] @ replicate 16 0),
        Transfer [0x20, 0x5D, 0x01], Transfer [0x20, 0x5C, 0x00]]"
  using receiveInterrupt_drops_when_full [of "receiveInterrupt (demoDriver readySPI 1 1)"]
  by (simp add: receiveInterrupt_eq Let_def demo_defs)

subsection \<open>Transmit path\<close>

text \<open>
  Claim C6 (routing in \<open>tryToSend\<close>). Index 0 enters the normal TX FIFO path. Index 255
  goes to the TXQ: with \<open>mUsesTXQ\<close> false nothing is transferred and the result is false;
  with bit 0 of the \<open>C1TXQSTA\<close> byte clear the result is false after that one read;
  otherwise the driver reads \<open>C1TXQUA\<close>, sends the encoded frame to \<open>0x400\<close> + that value,
  writes UINC|TXREQ (\<open>0x03\<close>) to \<open>C1TXQCON+1\<close> (address \<open>0x051\<close>) and returns true. Every
  other index returns false and leaves the driver and the bus untouched.
\<close>

theorem tryToSend_routing:
  "(idx m = 0 \<longrightarrow> tryToSend m s = enterInTransmitBuffer m s)
   \<and> (idx m = 255 \<and> \<not> mUsesTXQ s \<longrightarrow> tryToSend m s = (False, s))
   \<and> (idx m = 255 \<and> mUsesTXQ s \<and> \<not> bit (answer s 0 2) 0 \<longrightarrow>
        tryToSend m s = (False, logged [Transfer [0x30, 0x54, 0]] s))
   \<and> (idx m = 255 \<and> mUsesTXQ s \<and> bit (answer s 0 2) 0 \<longrightarrow>
        tryToSend m s =
          (True, logged [Transfer [0x30, 0x54, 0], Transfer [0x30, 0x58, 0, 0, 0, 0],
                         Transfer (txBuff (ucast (0x400 + answerWord s 1)) m),
                         Transfer [0x20, 0x51, 0x03]] s))
   \<and> (idx m \<noteq> 0 \<and> idx m \<noteq> 255 \<longrightarrow> tryToSend m s = (False, s))"
  by (simp add: tryToSend_def sendViaTXQ_eq and_1_bit0)

theorem tryToSend_routing_witness:
  "tryToSend (stdFrame 0x100 0) (demoDriver readySPI 1 1)
     = enterInTransmitBuffer (stdFrame 0x100 0) (demoDriver readySPI 1 1)
   \<and> tryToSend (stdFrame 0x100 255) (demoDriver readySPI 1 1) = (False, demoDriver readySPI 1 1)
   \<and> \<not> fst (tryToSend (stdFrame 0x100 255) ((demoDriver quietSPI 1 1)\<lparr>mUsesTXQ := True\<rparr>))
   \<and> sent (snd (tryToSend (stdFrame 0x100 255) ((demoDriver quietSPI 1 1)\<lparr>mUsesTXQ := True\<rparr>)))
       = [Transfer [0x30, 0x54, 0]]
   \<and> fst (tryToSend (stdFrame 0x100 255) ((demoDriver readySPI 1 1)\<lparr>mUsesTXQ := True\<rparr>))
   \<and> sent (snd (tryToSend (stdFrame 0x100 255) ((demoDriver readySPI 1 1)\<lparr>mUsesTXQ := True\<rparr>)))
       = [Transfer [0x30, 0x54, 0], Transfer [0x30, 0x58, 0, 0, 0, 0],
          Transfer (txBuff 0x3FF (stdFrame 0x100 255)), Transfer [0x20, 0x51, 0x03]]
   \<and> tryToSend (stdFrame 0x100 7) (demoDriver readySPI 1 1) = (False, demoDriver readySPI 1 1)"
  using tryToSend_routing [of "stdFrame 0x100 0" "demoDriver readySPI 1 1"]
    tryToSend_routing [of "stdFrame 0x100 255" "demoDriver readySPI 1 1"]
    tryToSend_routing [of "stdFrame 0x100 255" "(demoDriver quietSPI 1 1)\<lparr>mUsesTXQ := True\<rparr>"]
    tryToSend_routing [of "stdFrame 0x100 255" "(demoDriver readySPI 1 1)\<lparr>mUsesTXQ := True\<rparr>"]
    tryToSend_routing [of "stdFrame 0x100 7" "demoDriver readySPI 1 1"]
  by (simp add: stdFrame_def demo_defs)

text \<open>
  Claim C8. The TX handler does not look at what \<open>remove\<close> returns: on every call it reads
  \<open>C1FIFOUA(2)\<close>, sends one encoded frame and writes UINC|TXREQ to \<open>C1FIFOCON(2)+1\<close>
  (address \<open>0x069\<close>) once. The frame is the head of the host TX FIFO, or, when that FIFO is
  empty and \<open>remove\<close> has failed, the default-constructed message.
\<close>

theorem transmitInterrupt_ignores_remove:
  "sent (transmitInterrupt s) =
     sent s @ [Transfer [0x30, 0x70, 0, 0, 0, 0],
               Transfer (txBuff (ucast (0x400 + answerWord s 0))
                          (case mBuffer (mDriverTransmitBuffer s) of
                             [] \<Rightarrow> CANMessage_default | m # ms \<Rightarrow> m)),
               Transfer [0x20, 0x69, 0x03]]
            @ (if tl (mBuffer (mDriverTransmitBuffer s)) = []
               then [Transfer [0x20, 0x68, 0x80]] else [])
   \<and> (ACANBuffer_count (mDriverTransmitBuffer s) = 0 \<longrightarrow>
        \<not> fst (ACANBuffer_remove CANMessage_default (mDriverTransmitBuffer s))
        \<and> sent (transmitInterrupt s) =
            sent s @ [Transfer [0x30, 0x70, 0, 0, 0, 0],
                      Transfer (txBuff (ucast (0x400 + answerWord s 0)) CANMessage_default),
                      Transfer [0x20, 0x69, 0x03], Transfer [0x20, 0x68, 0x80]])"
  by (simp add: transmitInterrupt_eq Let_def ACANBuffer_count_def ACANBuffer_remove_def)

text \<open>The TX handler on an empty host TX FIFO: an all-zero message object goes out.\<close>

theorem transmitInterrupt_ignores_remove_witness:
  "ACANBuffer_count (mDriverTransmitBuffer (demoDriver quietSPI 1 1)) = 0
   \<and> sent (transmitInterrupt (demoDriver quietSPI 1 1)) =
       [Transfer [0x30, 0x70, 0, 0, 0, 0],
        Transfer [0x24, 0x00, 0, 0, 0, 0, 0, 0, 0, 0, 0, 0, 0, 0, 0, 0, 0, 0],
        Transfer [0x20, 0x69, 0x03], Transfer [0x20, 0x68, 0x80]]"
  using transmitInterrupt_ignores_remove [of "demoDriver quietSPI 1 1"]
  by (simp add: demo_defs txBuff_def txIdf_def txData_def CANMessage_default_def)

subsection \<open>Interrupt dispatch\<close>

lemma sent_receiveInterrupt:
  "\<exists>es. sent (receiveInterrupt s) = sent s @ es \<and> Transfer [0x30, 0x1C, 0, 0, 0, 0] \<notin> set es"
proof -
  have "length (readCommand (ucast (0x400 + answerWord s 1)) @ replicate 16 0)
      \<noteq> length [0x30, 0x1C, 0, 0, 0, 0 :: u8]"
    by simp
  then have "readCommand (ucast (0x400 + answerWord s 1)) @ replicate 16 0
      \<noteq> [0x30, 0x1C, 0, 0, 0, 0]"
    by metis
  then show ?thesis by (simp add: receiveInterrupt_eq Let_def)
qed

lemma sent_transmitInterrupt:
  "\<exists>es. sent (transmitInterrupt s) = sent s @ es \<and> Transfer [0x30, 0x1C, 0, 0, 0, 0] \<notin> set es"
  by (simp add: transmitInterrupt_eq Let_def txBuff_def)

text \<open>
  Claim C7 (dispatch in \<open>isr_core\<close>). With \<open>intReg\<close> the word read from \<open>C1INT\<close> (address
  \<open>0x01C\<close>): the RX handler runs when bit 1 is set, then the TX handler when bit 0 is
  set, then \<open>0x04\<close> is written to \<open>C1INT\<close> when bit 2 is set, \<open>0x08\<close> to \<open>C1INT\<close> when bit 3
  is set, and \<open>0x10\<close> to \<open>C1INT+1\<close> when bit 12 is set. The result is true exactly when bit 1
  or bit 0 was set, and \<open>C1INT\<close> is read once in the call.
\<close>

theorem isr_core_dispatch:
  "isr_core s =
     (let intReg = answerWord s 0;
          s0 = logged [Transfer [0x30, 0x1C, 0, 0, 0, 0]] s;
          s1 = (if bit intReg 1 then receiveInterrupt s0 else s0);
          s2 = (if bit intReg 0 then transmitInterrupt s1 else s1);
          s3 = (if bit intReg 2 then logged [Transfer [0x20, 0x1C, 0x04]] s2 else s2);
          s4 = (if bit intReg 3 then logged [Transfer [0x20, 0x1C, 0x08]] s3 else s3);
          s5 = (if bit intReg 12 then logged [Transfer [0x20, 0x1D, 0x10]] s4 else s4)
      in (bit intReg 1 \<or> bit intReg 0, s5))
   \<and> length (filter (\<lambda>e. e = Transfer [0x30, 0x1C, 0, 0, 0, 0])
               (drop (length (sent s)) (sent (snd (isr_core s))))) = 1"
proof -
  define s0 where "s0 = logged [Transfer [0x30, 0x1C, 0, 0, 0, 0]] s"
  define s1 where "s1 = (if bit (answerWord s 0) 1 then receiveInterrupt s0 else s0)"
  define s2 where "s2 = (if bit (answerWord s 0) 0 then transmitInterrupt s1 else s1)"
  have "\<exists>e1. sent s1 = sent s0 @ e1 \<and> Transfer [0x30, 0x1C, 0, 0, 0, 0] \<notin> set e1"
  proof (cases "bit (answerWord s 0) 1")
    case True
    then show ?thesis unfolding s1_def using sent_receiveInterrupt [of s0] by simp
  next
    case False
    then show ?thesis unfolding s1_def by simp
  qed
  then obtain e1 where e1: "sent s1 = sent s0 @ e1" "Transfer [0x30, 0x1C, 0, 0, 0, 0] \<notin> set e1"
    by blast
  have "\<exists>e2. sent s2 = sent s1 @ e2 \<and> Transfer [0x30, 0x1C, 0, 0, 0, 0] \<notin> set e2"
  proof (cases "bit (answerWord s 0) 0")
    case True
    then show ?thesis unfolding s2_def using sent_transmitInterrupt [of s1] by simp
  next
    case False
    then show ?thesis unfolding s2_def by simp
  qed
  then obtain e2 where e2: "sent s2 = sent s1 @ e2" "Transfer [0x30, 0x1C, 0, 0, 0, 0] \<notin> set e2"
    by blast
  define c where "c = (if bit (answerWord s 0) 2 then [Transfer [0x20, 0x1C, 0x04]] else [])
      @ (if bit (answerWord s 0) 3 then [Transfer [0x20, 0x1C, 0x08]] else [])
      @ (if bit (answerWord s 0) 12 then [Transfer [0x20, 0x1D, 0x10]] else [])"
  have c: "Transfer [0x30, 0x1C, 0, 0, 0, 0] \<notin> set c" by (simp add: c_def)
  have s5: "sent (snd (isr_core s)) = sent s2 @ c"
    by (simp add: isr_core_eq Let_def s0_def s1_def s2_def c_def)
  have "sent (snd (isr_core s)) = sent s @ ([Transfer [0x30, 0x1C, 0, 0, 0, 0]] @ e1 @ e2 @ c)"
    using e1 e2 s5 by (simp add: s0_def)
  then have "drop (length (sent s)) (sent (snd (isr_core s))) =
      [Transfer [0x30, 0x1C, 0, 0, 0, 0]] @ e1 @ e2 @ c"
    by simp
  moreover have "filter (\<lambda>e. e = Transfer [0x30, 0x1C, 0, 0, 0, 0]) (e1 @ e2 @ c) = []"
    using e1(2) e2(2) c by (auto simp add: filter_empty_conv)
  ultimately have "length (filter (\<lambda>e. e = Transfer [0x30, 0x1C, 0, 0, 0, 0])
               (drop (length (sent s)) (sent (snd (isr_core s))))) = 1"
    by simp
  then show ?thesis using isr_core_eq [of s] by simp
qed

text \<open>
  A controller that answers zero to every read (nothing pending), and one that answers
  all ones (every interrupt flag set).
\<close>

theorem isr_core_dispatch_witness:
  "isr_core (demoDriver quietSPI 1 1)
     = (False, logged [Transfer [0x30, 0x1C, 0, 0, 0, 0]] (demoDriver quietSPI 1 1))
   \<and> fst (isr_core (demoDriver readySPI 1 1))
   \<and> sent (snd (isr_core (demoDriver readySPI 1 1))) =
       [Transfer [0x30, 0x1C, 0, 0, 0, 0],
        Transfer [0x30, 0x60, 0], Transfer [0x30, 0x64, 0, 0, 0, 0],
        Transfer ([0x33, 0xFF] @ replicate 16 0),
        Transfer [0x20, 0x5D, 0x01], Transfer [0x20, 0x5C, 0x00],
        Transfer [0x30, 0x70, 0, 0, 0, 0],
        Transfer [0x23, 0xFF, 0, 0, 0, 0, 0, 0, 0, 0, 0, 0, 0, 0, 0, 0, 0, 0],
        Transfer [0x20, 0x69, 0x03], Transfer [0x20, 0x68, 0x80],
        Transfer [0x20, 0x1C, 0x04], Transfer [0x20, 0x1C, 0x08], Transfer [0x20, 0x1D, 0x10]]"
  using isr_core_dispatch [of "demoDriver quietSPI 1 1"]
    isr_core_dispatch [of "demoDriver readySPI 1 1"]
  by (simp add: receiveInterrupt_eq transmitInterrupt_eq Let_def demo_defs
      txBuff_def txIdf_def txData_def CANMessage_default_def)


subsection \<open>Bring-up\<close>

declare begin_readBack.simps [simp del] begin_resetRAM.simps [simp del]

lemma FIFOCON2_writes_simps [simp]:
  "FIFOCON2_writes [] = []"
  "FIFOCON2_writes (xs @ ys) = FIFOCON2_writes xs @ FIFOCON2_writes ys"
  "FIFOCON2_writes (Transfer16 w # es) = FIFOCON2_writes es"
  "FIFOCON2_writes (Transfer b # es) =
     (if length b = 3 \<and> take 2 b = [0x20, 0x68] then [b ! 2] else []) @ FIFOCON2_writes es"
proof -
  show "FIFOCON2_writes (Transfer b # es) =
     (if length b = 3 \<and> take 2 b = [0x20, 0x68] then [b ! 2] else []) @ FIFOCON2_writes es"
  proof (cases b)
    case Nil
    then show ?thesis by (simp add: FIFOCON2_writes_def)
  next
    case (Cons c0 b1)
    show ?thesis
    proof (cases b1)
      case Nil
      then show ?thesis using Cons by (simp add: FIFOCON2_writes_def)
    next
      case (Cons c1 b2)
      note b1 = this
      show ?thesis
      proof (cases b2)
        case Nil
        then show ?thesis using \<open>b = c0 # b1\<close> b1 by (simp add: FIFOCON2_writes_def)
      next
        case (Cons v b3)
        then show ?thesis using \<open>b = c0 # b1\<close> b1
          by (cases b3) (auto simp add: FIFOCON2_writes_def)
      qed
    qed
  qed
qed (simp_all add: FIFOCON2_writes_def)

lemma readCommand_not_write [simp]: "readCommand a \<noteq> [0x20, c]"
proof
  assume "readCommand a = [0x20, c]"
  then have "(ucast (drop_bit 8 ((a AND 0x0FFF) OR push_bit 12 3)) :: u8) = 0x20"
    by (simp add: readCommand_def Let_def)
  then have "bit (ucast (drop_bit 8 ((a AND 0x0FFF) OR push_bit 12 3 :: u16)) :: u8) 4 = bit (0x20 :: u8) 4"
    by simp
  then show False by (simp add: bit_simps)
qed

lemma writeCommand_eq_iff:
  "writeCommand a = writeCommand b \<longleftrightarrow> a AND 0x0FFF = b AND 0x0FFF"
proof
  assume "a AND 0x0FFF = b AND 0x0FFF"
  then show "writeCommand a = writeCommand b" by (simp add: writeCommand_def)
next
  assume e: "writeCommand a = writeCommand b"
  define ca where "ca = (a AND 0x0FFF) OR push_bit 12 2"
  define cb where "cb = (b AND 0x0FFF) OR push_bit 12 2"
  have h: "(ucast (drop_bit 8 ca) :: u8) = ucast (drop_bit 8 cb)"
    and l: "(ucast (ca AND 0xFF) :: u8) = ucast (cb AND 0xFF)"
    using e by (simp_all add: writeCommand_def Let_def ca_def cb_def)
  have mFF: "(0xFF :: u16) = mask 8" and m12: "(0x0FFF :: u16) = mask 12"
    by (simp_all add: mask_eq_exp_minus_1)
  have "ca = cb"
  proof (rule bit_word_eqI)
    fix n :: nat assume "n < LENGTH(16)"
    then have n: "n < 16" by simp
    show "bit ca n = bit cb n"
    proof (cases "n < 8")
      case True
      have "bit (ucast (ca AND 0xFF) :: u8) n = bit (ucast (cb AND 0xFF) :: u8) n" using l by simp
      then show ?thesis using True unfolding mFF by (simp add: bit_simps)
    next
      case False
      have "bit (ucast (drop_bit 8 ca) :: u8) (n - 8) = bit (ucast (drop_bit 8 cb) :: u8) (n - 8)"
        using h by simp
      moreover have "n - 8 < 8" using False n by linarith
      ultimately show ?thesis using False n by (simp add: bit_simps)
    qed
  qed
  then have "ca AND mask 12 = cb AND mask 12" by simp
  moreover have p: "push_bit 12 (2 :: u16) = 2 ^ 13" by simp
  have "\<And>x :: u16. ((x AND mask 12) OR 2 ^ 13) AND mask 12 = x AND mask 12"
    by (rule bit_word_eqI) (auto simp add: bit_simps bit_exp_iff simp del: power_numeral)
  ultimately show "a AND 0x0FFF = b AND 0x0FFF"
    unfolding ca_def cb_def m12 p by (simp del: power_numeral)
qed

lemma observe_update2 [simp]:
  "sent (s\<lparr>mUsesTXQ := u\<rparr>) = sent s"
  "sent (s\<lparr>mCallBackFunctionArray := c\<rparr>) = sent s"
  by (simp_all add: sent_def)

lemma third_level_eq:
  "writeByteRegister a v s = logged [Transfer (writeCommand a @ [v])] s"
  "readByteRegister a s = (answer s 0 2, logged [Transfer (readCommand a @ [0])] s)"
  "readRegister a s = (answerWord s 0, logged [Transfer (readCommand a @ [0, 0, 0, 0])] s)"
  "writeRegister a w s = logged [Transfer16 ((a AND 0x0FFF) OR push_bit 12 2),
      Transfer [ucast w, ucast (drop_bit 8 w), ucast (drop_bit 16 w), ucast (drop_bit 24 w)]] s"
  "reset2517FD s = logged [Transfer16 0] s"
  by (simp_all add: writeByteRegister_def readByteRegister_def readRegister_def writeRegister_def
      access_eq writeRegisterSPI_def writeWordSPI_def writeCommandSPI_def transfer16_def
      reset2517FD_def logged_def)

lemma quiet_refl [simp]: "quiet s s"
  by (simp add: quiet_def)

lemma quiet_trans: "quiet s s' \<Longrightarrow> quiet s' s'' \<Longrightarrow> quiet s s''"
  by (simp add: quiet_def)

lemma quiet_logged: "FIFOCON2_writes es = [] \<Longrightarrow> quiet s (logged es s)"
  by (simp add: quiet_def)

lemma quiet_read [simp]:
  "FIFOCON2_writes [Transfer (readCommand a @ [0])] = []"
  using readCommand_not_write [of a "0x68"] by simp

lemma quiet_readByteRegister: "quiet s (snd (readByteRegister a s))"
  by (simp add: third_level_eq quiet_def)

lemma quiet_readRegister: "quiet s (snd (readRegister a s))"
  by (simp add: third_level_eq quiet_def)

lemma quiet_writeRegister: "quiet s (writeRegister a w s)"
  by (simp add: third_level_eq quiet_def)

lemma waitForMode_quiet:
  assumes "waitForMode mode deadline pf s = Some y"
  shows "quiet s (snd (snd y))"
  using assms
proof (induction rule: waitForMode.raw_induct [rotated 1, consumes 1])
  case (1 wfm mode deadline pf s y)
  define s1 where "s1 = snd (readByteRegister (C1CON_REGISTER + 2) s)"
  have q: "quiet s s1" unfolding s1_def by (rule quiet_readByteRegister)
  from 1(2) have "snd (snd y) = s1 \<or> wfm mode deadline (snd (millis pf)) s1 = Some y"
    by (auto simp add: Let_def split_def s1_def split: if_splits)
  then show ?case
  proof
    assume "snd (snd y) = s1"
    then show ?thesis using q by simp
  next
    assume "wfm mode deadline (snd (millis pf)) s1 = Some y"
    then have "quiet s1 (snd (snd y))" by (rule 1(1))
    then show ?thesis using q quiet_trans by blast
  qed
qed

lemma waitForPLL_quiet:
  assumes "waitForPLL deadline pf s = Some y"
  shows "quiet s (snd (snd y))"
  using assms
proof (induction rule: waitForPLL.raw_induct [rotated 1, consumes 1])
  case (1 wfp deadline pf s y)
  define s1 where "s1 = snd (readByteRegister (OSC_REGISTER + 1) s)"
  have q: "quiet s s1" unfolding s1_def by (rule quiet_readByteRegister)
  from 1(2) have "snd (snd y) = s1 \<or> wfp deadline (snd (millis pf)) s1 = Some y"
    by (auto simp add: Let_def split_def s1_def split: if_splits)
  then show ?case
  proof
    assume "snd (snd y) = s1"
    then show ?thesis using q by simp
  next
    assume "wfp deadline (snd (millis pf)) s1 = Some y"
    then have "quiet s1 (snd (snd y))" by (rule 1(1))
    then show ?thesis using q quiet_trans by blast
  qed
qed

lemma begin_readBack_quiet: "quiet s (snd (begin_readBack kError i errorCode s))"
proof (induction kError i errorCode s rule: begin_readBack.induct)
  case (1 kError i errorCode s)
  show ?case
  proof (cases "i \<noteq> 0 \<and> errorCode = 0")
    case True
    define s1 where "s1 = writeRegister 0x400 i s"
    define s2 where "s2 = snd (readRegister 0x400 s1)"
    define e where "e = (if fst (readRegister 0x400 s1) \<noteq> i then kError else errorCode)"
    have "quiet s2 (snd (begin_readBack kError (push_bit 1 i) e s2))"
      using "1.IH" [of s1 "readRegister 0x400 s1" "fst (readRegister 0x400 s1)" s2] True
      by (simp add: s1_def s2_def e_def)
    moreover have "quiet s s2"
      unfolding s1_def s2_def using quiet_writeRegister quiet_readRegister quiet_trans by blast
    moreover have "begin_readBack kError i errorCode s = begin_readBack kError (push_bit 1 i) e s2"
      using True by (subst begin_readBack.simps) (simp add: Let_def split_def s1_def s2_def e_def)
    ultimately show ?thesis using quiet_trans by metis
  next
    case False
    then show ?thesis by (subst begin_readBack.simps) auto
  qed
qed

lemma begin_resetRAM_quiet: "quiet s (begin_resetRAM address s)"
proof (induction address s rule: begin_resetRAM.induct)
  case (1 address s)
  show ?case
  proof (cases "address < 0xC00")
    case True
    then have "quiet (writeRegister address 0 s) (begin_resetRAM (address + 4) (writeRegister address 0 s))"
      by (rule "1.IH")
    then have "quiet s (begin_resetRAM (address + 4) (writeRegister address 0 s))"
      using quiet_writeRegister quiet_trans by blast
    then show ?thesis using True by (subst begin_resetRAM.simps) simp
  next
    case False
    then show ?thesis by (subst begin_resetRAM.simps) simp
  qed
qed

lemma writeCommand_FIFOCON2_iff:
  "writeCommand a = [0x20, 0x68] \<longleftrightarrow> a AND 0x0FFF = 0x068"
  unfolding command_simps(1) [symmetric] writeCommand_eq_iff
  by (simp add: C1FIFOCON_REGISTER_def)

lemma FLTCON_not_FIFOCON2:
  "writeCommand (C1FLTCON_REGISTER (ucast (fi :: u8))) \<noteq> [0x20, 0x68]"
proof -
  define a :: u16 where "a = 0x1D0 + ucast fi"
  have "unat fi < 256" using unsigned_less [of fi, where ?'a = nat] by simp
  then have "unat (ucast fi :: u16) = unat fi"
    by (simp add: unsigned_ucast_eq take_bit_nat_eq_self)
  then have u: "unat a = 0x1D0 + unat fi"
    unfolding a_def using \<open>unat fi < 256\<close> by (simp add: unat_word_ariths)
  then have "a < 2 ^ 12" using \<open>unat fi < 256\<close> by (simp add: word_less_nat_alt)
  then have "a AND mask 12 = a" by (rule less_mask_eq)
  moreover have "a \<noteq> 0x068" using u by (auto simp add: word_eq_iff_unsigned [where ?'a = nat])
  ultimately have "a AND 0x0FFF \<noteq> 0x068" by (simp add: mask_eq_exp_minus_1)
  then show ?thesis
    by (simp add: writeCommand_FIFOCON2_iff C1FLTCON_REGISTER_def a_def)
qed

lemma begin_configureFilters_effect:
  "mControllerTxFIFOFull (begin_configureFilters fs fi s) = mControllerTxFIFOFull s
   \<and> FIFOCON2_writes (sent (begin_configureFilters fs fi s)) = FIFOCON2_writes (sent s)
   \<and> mINT (begin_configureFilters fs fi s) = mINT s
   \<and> map_option length (mCallBackFunctionArray (begin_configureFilters fs fi s))
       = map_option length (mCallBackFunctionArray s)"
proof (induction fs arbitrary: fi s)
  case Nil
  then show ?case by simp
next
  case (Cons f fs)
  show ?case
    using FLTCON_not_FIFOCON2 [of fi]
    by (simp add: Let_def Cons.IH third_level_eq option.map_comp comp_def)
qed

lemmas register_defs =
  C1CON_REGISTER_def C1NBTCFG_REGISTER_def C1TXQCON_REGISTER_def C1TXQSTA_REGISTER_def
  C1TXQUA_REGISTER_def C1INT_REGISTER_def C1FIFOCON_REGISTER_def C1FIFOSTA_REGISTER_def
  C1FIFOUA_REGISTER_def OSC_REGISTER_def IOCON_REGISTER_def receiveFIFOIndex_def

lemma begin_readBack_skip: "errorCode \<noteq> 0 \<Longrightarrow> begin_readBack kError i errorCode s = (errorCode, s)"
  by (subst begin_readBack.simps) simp

lemma begin_requestConfiguration_effect:
  assumes "begin_requestConfiguration k errorCode pf s = Some (e', pf', s')"
  shows "quiet s s'" and "errorCode \<noteq> 0 \<Longrightarrow> e' = errorCode \<and> pf' = pf \<and> s' = s"
proof -
  show "errorCode \<noteq> 0 \<Longrightarrow> e' = errorCode \<and> pf' = pf \<and> s' = s"
    using assms by (simp add: begin_requestConfiguration_def)
  show "quiet s s'"
  proof (cases "errorCode = 0")
    case True
    define s1 where "s1 = writeByteRegister (C1CON_REGISTER + 3) (0x04 OR push_bit 3 1) s"
    from assms True obtain y where
      y: "waitForMode 0x04 (fst (millis pf) + 2) (snd (millis pf)) s1 = Some y"
      and s': "s' = reset2517FD (snd (snd y))"
      by (auto simp add: begin_requestConfiguration_def Let_def split_def s1_def
          bind_eq_Some_conv)
    have "quiet s s1"
      by (simp add: s1_def third_level_eq quiet_def writeCommand_FIFOCON2_iff register_defs)
    moreover have "quiet s1 (snd (snd y))" using y by (rule waitForMode_quiet)
    moreover have "quiet (snd (snd y)) s'" by (simp add: s' third_level_eq quiet_def)
    ultimately show ?thesis using quiet_trans by blast
  next
    case False
    then show ?thesis using assms by (simp add: begin_requestConfiguration_def)
  qed
qed

lemma begin_setOscillator_effect:
  assumes "begin_setOscillator k inSettings errorCode pf s = Some (e', pf', s')"
  shows "quiet s s'" and "errorCode \<noteq> 0 \<Longrightarrow> e' = errorCode \<and> pf' = pf \<and> s' = s"
proof -
  show "errorCode \<noteq> 0 \<Longrightarrow> e' = errorCode \<and> pf' = pf \<and> s' = s"
    using assms by (simp add: begin_setOscillator_def)
  show "quiet s s'"
  proof (cases "errorCode = 0")
    case True
    have w: "\<And>v. quiet s (writeByteRegister OSC_REGISTER v s)"
      by (simp add: third_level_eq quiet_def writeCommand_FIFOCON2_iff register_defs)
    from assms True have
      "(\<exists>v. s' = writeByteRegister OSC_REGISTER v s)
       \<or> (\<exists>v d p y. waitForPLL d p (writeByteRegister OSC_REGISTER v s) = Some y \<and> s' = snd (snd y))"
      by (auto simp add: begin_setOscillator_def Let_def split_def bind_eq_Some_conv
          split: if_splits)
    then show ?thesis
      using w waitForPLL_quiet quiet_trans by blast
  next
    case False
    then show ?thesis using assms by (simp add: begin_setOscillator_def)
  qed
qed

lemma begin_configure_effect:
  assumes "begin_configure k inSettings isr inFilters errorCode pf s = Some (e', pf', s')"
  shows "errorCode \<noteq> 0 \<Longrightarrow> e' = errorCode \<and> pf' = pf \<and> s' = s"
    and "errorCode = 0 \<Longrightarrow>
          mControllerTxFIFOFull s' = mControllerTxFIFOFull s
          \<and> FIFOCON2_writes (sent s') = FIFOCON2_writes (sent s) @ [0x80]
          \<and> map_option length (mCallBackFunctionArray s') = Some (filterCount inFilters)"
proof -
  show "errorCode \<noteq> 0 \<Longrightarrow> e' = errorCode \<and> pf' = pf \<and> s' = s"
    using assms by (simp add: begin_configure_def)
  assume z: "errorCode = 0"
  from assms z have "\<exists>m d p sx y. waitForMode m d p sx = Some y \<and> (s' = snd (snd y)
          \<and> mControllerTxFIFOFull sx = mControllerTxFIFOFull s
          \<and> FIFOCON2_writes (sent sx) = FIFOCON2_writes (sent s) @ [0x80]
          \<and> map_option length (mCallBackFunctionArray sx) = Some (filterCount inFilters))"
    apply (clarsimp simp add: begin_configure_def bind_eq_Some_conv split_def Let_def
        simp del: map_option_eq_Some)
    apply (rule exI)+
    apply (rule conjI)
     apply (rule exI)+
     apply assumption
    apply (simp add: third_level_eq writeCommand_FIFOCON2_iff register_defs nth_append
        begin_resetRAM_quiet [unfolded quiet_def] begin_configureFilters_effect
        del: map_option_eq_Some)
    done
  then obtain sx m d p y where
    y: "waitForMode m d p sx = Some y" and s': "s' = snd (snd y)"
    and sx: "mControllerTxFIFOFull sx = mControllerTxFIFOFull s
          \<and> FIFOCON2_writes (sent sx) = FIFOCON2_writes (sent s) @ [0x80]
          \<and> map_option length (mCallBackFunctionArray sx) = Some (filterCount inFilters)"
    by blast
  show "mControllerTxFIFOFull s' = mControllerTxFIFOFull s
          \<and> FIFOCON2_writes (sent s') = FIFOCON2_writes (sent s) @ [0x80]
          \<and> map_option length (mCallBackFunctionArray s') = Some (filterCount inFilters)"
    using waitForMode_quiet [OF y] sx by (simp add: quiet_def s')
qed

lemma begin_rejected:
  assumes "begin_checkSettings k inSettings isr inFilters pf s \<noteq> 0"
  shows "ACAN2517_begin k inSettings isr inFilters pf s
           = Some (begin_checkSettings k inSettings isr inFilters pf s, pf, s)"
  using assms
  by (simp add: ACAN2517_begin_def Let_def begin_requestConfiguration_def begin_readBack_skip
      begin_setOscillator_def begin_configure_def)

lemma begin_effect:
  assumes "ACAN2517_begin k inSettings isr inFilters pf s = Some (e, pf', s')"
  shows "mControllerTxFIFOFull s' = mControllerTxFIFOFull s"
    and "FIFOCON2_writes (sent s') = FIFOCON2_writes (sent s)
         \<or> FIFOCON2_writes (sent s') = FIFOCON2_writes (sent s) @ [0x80]"
    and "e = 0 \<Longrightarrow> map_option length (mCallBackFunctionArray s') = Some (filterCount inFilters)"
    and "e = 0 \<Longrightarrow> FIFOCON2_writes (sent s') = FIFOCON2_writes (sent s) @ [0x80]"
proof -
  define e0 where "e0 = begin_checkSettings k inSettings isr inFilters pf s"
  from assms obtain r1 where
    r1: "begin_requestConfiguration k e0 pf s = Some r1"
    by (auto simp add: ACAN2517_begin_def Let_def split_def bind_eq_Some_conv e0_def)
  define b1 where "b1 = begin_readBack (kReadBackErrorWith1MHzSPIClock k) 1 (fst r1) (snd (snd r1))"
  from assms r1 obtain r2 where
    r2: "begin_setOscillator k inSettings (fst b1) (fst (snd r1)) (snd b1) = Some r2"
    by (auto simp add: ACAN2517_begin_def Let_def split_def bind_eq_Some_conv e0_def b1_def)
  define b2 where
    "b2 = begin_readBack (kReadBackErrorWithFullSpeedSPIClock k) 1 (fst r2) (snd (snd r2))"
  from assms r1 r2 have
    r3: "begin_configure k inSettings isr inFilters (fst b2) (fst (snd r2)) (snd b2)
           = Some (e, pf', s')"
    by (auto simp add: ACAN2517_begin_def Let_def split_def bind_eq_Some_conv e0_def b1_def b2_def)
  have "quiet s (snd (snd r1))"
    using begin_requestConfiguration_effect(1) [of k e0 pf s "fst r1" "fst (snd r1)" "snd (snd r1)"] r1
    by simp
  moreover have "quiet (snd (snd r1)) (snd b1)" unfolding b1_def by (rule begin_readBack_quiet)
  moreover have "quiet (snd b1) (snd (snd r2))"
    using begin_setOscillator_effect(1)
      [of k inSettings "fst b1" "fst (snd r1)" "snd b1" "fst r2" "fst (snd r2)" "snd (snd r2)"] r2
    by simp
  moreover have "quiet (snd (snd r2)) (snd b2)" unfolding b2_def by (rule begin_readBack_quiet)
  ultimately have q: "quiet s (snd b2)" using quiet_trans by blast
  note c = begin_configure_effect [OF r3]
  show "mControllerTxFIFOFull s' = mControllerTxFIFOFull s"
    using q c by (cases "fst b2 = 0") (auto simp add: quiet_def)
  show "FIFOCON2_writes (sent s') = FIFOCON2_writes (sent s)
         \<or> FIFOCON2_writes (sent s') = FIFOCON2_writes (sent s) @ [0x80]"
    using q c by (cases "fst b2 = 0") (auto simp add: quiet_def)
  show "e = 0 \<Longrightarrow> map_option length (mCallBackFunctionArray s') = Some (filterCount inFilters)"
    using c by (cases "fst b2 = 0") auto
  show "e = 0 \<Longrightarrow> FIFOCON2_writes (sent s') = FIFOCON2_writes (sent s) @ [0x80]"
    using q c by (cases "fst b2 = 0") (auto simp add: quiet_def)
qed

subsection \<open>The TX-full flag\<close>

lemma lastFIFOCON2_eq:
  "lastFIFOCON2 s = (if FIFOCON2_writes (sent s) = [] then None
                     else Some (last (FIFOCON2_writes (sent s))))"
  by (cases "FIFOCON2_writes (sent s)" rule: rev_cases) (simp_all add: lastFIFOCON2_def)

lemma txBuff_length [simp]: "length (txBuff a m) = 18"
  by (simp add: txBuff_def Let_def)

lemma txFlagConsistent_quiet: "quiet s s' \<Longrightarrow> txFlagConsistent s \<Longrightarrow> txFlagConsistent s'"
  by (simp add: quiet_def txFlagConsistent_def lastFIFOCON2_eq)














subsection \<open>A bring-up that succeeds\<close>

lemma logged_update2 [simp]:
  "logged es (s\<lparr>mUsesTXQ := u\<rparr>) = (logged es s)\<lparr>mUsesTXQ := u\<rparr>"
  "logged es (s\<lparr>mCallBackFunctionArray := c\<rparr>) = (logged es s)\<lparr>mCallBackFunctionArray := c\<rparr>"
  "answer (s\<lparr>mUsesTXQ := u\<rparr>) = answer s"
  "answer (s\<lparr>mCallBackFunctionArray := c\<rparr>) = answer s"
  by (simp_all add: logged_def answer_def fun_eq_iff)

lemma begin_resetRAM_bus:
  "miso (mSPI (begin_resetRAM a s)) = miso (mSPI s)
   \<and> length (sent s) \<le> length (sent (begin_resetRAM a s))
   \<and> mDriverReceiveBuffer (begin_resetRAM a s) = mDriverReceiveBuffer s
   \<and> mDriverTransmitBuffer (begin_resetRAM a s) = mDriverTransmitBuffer s"
proof (induction a s rule: begin_resetRAM.induct)
  case (1 address s)
  show ?case
  proof (cases "address < 0xC00")
    case True
    then show ?thesis
      using "1.IH" by (subst (1 2 3 4) begin_resetRAM.simps) (simp add: third_level_eq)
  next
    case False
    then show ?thesis by (subst (1 2 3 4) begin_resetRAM.simps) simp
  qed
qed

lemma begin_configureFilters_bus:
  "miso (mSPI (begin_configureFilters fs fi s)) = miso (mSPI s)
   \<and> length (sent s) \<le> length (sent (begin_configureFilters fs fi s))
   \<and> mDriverReceiveBuffer (begin_configureFilters fs fi s) = mDriverReceiveBuffer s
   \<and> mDriverTransmitBuffer (begin_configureFilters fs fi s) = mDriverTransmitBuffer s"
proof (induction fs arbitrary: fi s)
  case Nil
  then show ?case by simp
next
  case (Cons f fs)
  show ?case
    using Cons.IH [of "fi + 1"
        "logged [Transfer16 ((C1MASK_REGISTER (ucast fi) AND 0x0FFF) OR push_bit 12 2),
                 Transfer [ucast (mFilterMask f), ucast (drop_bit 8 (mFilterMask f)),
                           ucast (drop_bit 16 (mFilterMask f)), ucast (drop_bit 24 (mFilterMask f))],
                 Transfer16 ((C1FLTOBJ_REGISTER (ucast fi) AND 0x0FFF) OR push_bit 12 2),
                 Transfer [ucast (mAcceptanceFilter f), ucast (drop_bit 8 (mAcceptanceFilter f)),
                           ucast (drop_bit 16 (mAcceptanceFilter f)),
                           ucast (drop_bit 24 (mAcceptanceFilter f))],
                 Transfer (writeCommand (C1FLTCON_REGISTER (ucast fi)) @ [push_bit 7 1 OR 1])]
           (s\<lparr>mCallBackFunctionArray :=
                 map_option (\<lambda>array. array[unat fi := mCallBackRoutine f])
                   (mCallBackFunctionArray s)\<rparr>)"]
    by (simp add: Let_def third_level_eq sent_def)
qed

lemma waitForMode_now:
  "drop_bit 5 (answer s 0 2) AND 0x07 = mode \<Longrightarrow>
   waitForMode mode d pf s
     = Some (False, pf, logged [Transfer (readCommand (C1CON_REGISTER + 2) @ [0])] s)"
  by (subst waitForMode.simps) (simp add: third_level_eq)

lemma begin_readBack_echo:
  assumes "m \<le> 32"
    and "\<And>n. m \<le> n \<Longrightarrow> n < 32 \<Longrightarrow> answerWord s (3 * (n - m) + 2) = 2 ^ n"
  shows "\<exists>es. begin_readBack kError (2 ^ m) 0 s = (0, logged es s) \<and> length es = 3 * (32 - m)"
  using assms
proof (induction "32 - m" arbitrary: m s)
  case 0
  then have "m = 32" by simp
  then have "begin_readBack kError (2 ^ m) 0 s = (0, logged [] s)"
    by (subst begin_readBack.simps) (simp add: logged_def)
  then show ?case using \<open>m = 32\<close> by (intro exI [of _ "[]"]) simp
next
  case (Suc d)
  then have m: "m < 32" by simp
  define s2 where "s2 = logged [Transfer16 ((0x400 AND 0x0FFF) OR push_bit 12 2),
      Transfer [ucast (2 ^ m :: u32), ucast (drop_bit 8 (2 ^ m :: u32)),
                ucast (drop_bit 16 (2 ^ m :: u32)), ucast (drop_bit 24 (2 ^ m :: u32))],
      Transfer (readCommand 0x400 @ [0, 0, 0, 0])] s"
  have nz: "(2 ^ m :: u32) \<noteq> 0" using m by (simp add: power_eq_0_iff)
  have rb: "answerWord s 2 = 2 ^ m" using Suc.prems(2) [of m] m by (simp add: numeral_2_eq_2)
  have step: "begin_readBack kError (2 ^ m) 0 s = begin_readBack kError (2 ^ Suc m) 0 s2"
    using nz rb
    by (subst begin_readBack.simps)
       (simp add: Let_def split_def third_level_eq s2_def push_bit_eq_mult numeral_2_eq_2
          mult.commute)
  have "\<exists>es. begin_readBack kError (2 ^ Suc m) 0 s2 = (0, logged es s2)
           \<and> length es = 3 * (32 - Suc m)"
  proof (rule Suc.hyps(1))
    show "d = 32 - Suc m" using Suc.hyps(2) by simp
    show "Suc m \<le> 32" using m by simp
    fix n assume n: "Suc m \<le> n" "n < 32"
    then have "3 + (3 * (n - Suc m) + 2) = 3 * (n - m) + 2" by simp
    moreover have "answerWord s2 (3 * (n - Suc m) + 2) = answerWord s (3 + (3 * (n - Suc m) + 2))"
      unfolding s2_def logged_simps by (simp add: eval_nat_numeral)
    ultimately show "answerWord s2 (3 * (n - Suc m) + 2) = 2 ^ n"
      using Suc.prems(2) [of n] n by simp
  qed
  then obtain es where es: "begin_readBack kError (2 ^ Suc m) 0 s2 = (0, logged es s2)"
    "length es = 3 * (32 - Suc m)" by blast
  show ?case
    using step es m
    by (intro exI [of _ "[Transfer16 ((0x400 AND 0x0FFF) OR push_bit 12 2),
      Transfer [ucast (2 ^ m :: u32), ucast (drop_bit 8 (2 ^ m :: u32)),
                ucast (drop_bit 16 (2 ^ m :: u32)), ucast (drop_bit 24 (2 ^ m :: u32))],
      Transfer (readCommand 0x400 @ [0, 0, 0, 0])] @ es"]) (simp add: s2_def)
qed

lemma begin_requestConfiguration_succeeds:
  assumes "drop_bit 5 (answer s 1 2) AND 0x07 = 0x04"
  shows "begin_requestConfiguration k 0 pf s =
           Some (0, snd (millis pf),
                 logged [Transfer (writeCommand (C1CON_REGISTER + 3) @ [0x04 OR push_bit 3 1]),
                         Transfer (readCommand (C1CON_REGISTER + 2) @ [0]),
                         Transfer16 0] s)"
  using assms
  by (simp add: begin_requestConfiguration_def Let_def split_def third_level_eq waitForMode_now)

lemma begin_configure_succeeds:
  assumes a: "\<And>n. length (sent s) \<le> n \<Longrightarrow>
                drop_bit 5 (miso (mSPI s) n 2) AND 0x07 = mRequestedMode inSettings"
  shows "\<exists>pf' s'. begin_configure k inSettings isr inFilters 0 pf s = Some (0, pf', s')
           \<and> miso (mSPI s') = miso (mSPI s) \<and> length (sent s) \<le> length (sent s')
           \<and> mDriverReceiveBuffer s' = ACANBuffer_initWithSize (mDriverReceiveFIFOSize inSettings)
           \<and> mDriverTransmitBuffer s' = ACANBuffer_initWithSize (mDriverTransmitFIFOSize inSettings)"
proof -
  have key: "\<And>sx d p. miso (mSPI sx) = miso (mSPI s) \<Longrightarrow> length (sent s) \<le> length (sent sx) \<Longrightarrow>
      waitForMode (mRequestedMode inSettings) d p sx
        = Some (False, p, logged [Transfer (readCommand (C1CON_REGISTER + 2) @ [0])] sx)"
    using a by (intro waitForMode_now) (simp add: answer_def sent_def)
  note rr = begin_resetRAM_bus [THEN conjunct1] begin_resetRAM_bus [THEN conjunct2, THEN conjunct2]
  note ff = begin_configureFilters_bus [THEN conjunct1]
    begin_configureFilters_bus [THEN conjunct2, THEN conjunct2]
  have mono: "\<And>a x n. n \<le> length (sent x) \<Longrightarrow> n \<le> length (sent (begin_resetRAM a x))"
    "\<And>fs fi x n. n \<le> length (sent x) \<Longrightarrow> n \<le> length (sent (begin_configureFilters fs fi x))"
    using begin_resetRAM_bus begin_configureFilters_bus order_trans by blast+
  show ?thesis
    apply (simp add: begin_configure_def Let_def split_def third_level_eq split del: if_split)
    apply (subst key)
      apply (simp add: rr ff split del: if_split)
     apply ((intro le_SucI trans_le_add1 mono | simp split del: if_split)+) [1]
    apply (simp add: rr ff split del: if_split)
    apply ((intro le_SucI trans_le_add1 mono | simp split del: if_split)+) [1]
    done
qed

lemma begin_succeeds:
  assumes chk: "begin_checkSettings k inSettings isr inFilters pf s = 0"
    and cfg: "drop_bit 5 (answer s 1 2) AND 0x07 = 0x04"
    and e1: "\<And>n. n < 32 \<Longrightarrow> answerWord s (3 * n + 5) = 2 ^ n"
    and osc: "oscillator inSettings \<noteq> OSC_4MHz10xPLL"
      "oscillator inSettings \<noteq> OSC_4MHz10xPLL_DIVIDED_BY_2"
    and e2: "\<And>n. n < 32 \<Longrightarrow> answerWord s (3 * n + 102) = 2 ^ n"
    and md: "\<And>n. length (sent s) + 196 \<le> n \<Longrightarrow>
               drop_bit 5 (miso (mSPI s) n 2) AND 0x07 = mRequestedMode inSettings"
  shows "\<exists>pf' s'. ACAN2517_begin k inSettings isr inFilters pf s = Some (0, pf', s')
           \<and> miso (mSPI s') = miso (mSPI s) \<and> length (sent s) + 196 \<le> length (sent s')
           \<and> mDriverReceiveBuffer s' = ACANBuffer_initWithSize (mDriverReceiveFIFOSize inSettings)
           \<and> mDriverTransmitBuffer s' = ACANBuffer_initWithSize (mDriverTransmitFIFOSize inSettings)"
proof -
  define s1 where "s1 = logged [Transfer (writeCommand (C1CON_REGISTER + 3) @ [0x04 OR push_bit 3 1]),
                         Transfer (readCommand (C1CON_REGISTER + 2) @ [0]),
                         Transfer16 0] s"
  have r1: "begin_requestConfiguration k 0 pf s = Some (0, snd (millis pf), s1)"
    unfolding s1_def using cfg by (rule begin_requestConfiguration_succeeds)
  have "\<exists>es. begin_readBack (kReadBackErrorWith1MHzSPIClock k) (2 ^ 0) 0 s1 = (0, logged es s1)
          \<and> length es = 3 * (32 - 0)"
  proof (rule begin_readBack_echo)
    fix n :: nat assume "n < 32"
    then show "answerWord s1 (3 * (n - 0) + 2) = 2 ^ n"
      using e1 [of n] by (simp add: s1_def eval_nat_numeral)
  qed simp
  then obtain es1 where
    b1: "begin_readBack (kReadBackErrorWith1MHzSPIClock k) 1 0 s1 = (0, logged es1 s1)"
    and l1: "length es1 = 96" by auto
  obtain v where
    r2: "begin_setOscillator k inSettings 0 (snd (millis pf)) (logged es1 s1)
           = Some (0, snd (millis pf),
                   logged [Transfer (writeCommand OSC_REGISTER @ [v])] (logged es1 s1))"
    using osc
    by (cases "oscillator inSettings")
       (simp_all add: begin_setOscillator_def Let_def third_level_eq del: logged_simps(11))
  define s2 where "s2 = logged [Transfer (writeCommand OSC_REGISTER @ [v])] (logged es1 s1)"
  have "\<exists>es. begin_readBack (kReadBackErrorWithFullSpeedSPIClock k) (2 ^ 0) 0 s2 = (0, logged es s2)
          \<and> length es = 3 * (32 - 0)"
  proof (rule begin_readBack_echo)
    fix n :: nat assume "n < 32"
    have "answerWord s2 (3 * (n - 0) + 2) = answerWord s (3 * n + 102)"
      by (simp add: s2_def s1_def l1 eval_nat_numeral)
    then show "answerWord s2 (3 * (n - 0) + 2) = 2 ^ n"
      using e2 [of n] \<open>n < 32\<close> by simp
  qed simp
  then obtain es2 where
    b2: "begin_readBack (kReadBackErrorWithFullSpeedSPIClock k) 1 0 s2 = (0, logged es2 s2)"
    and l2: "length es2 = 96" by auto
  define s3 where "s3 = logged es2 s2"
  have len3: "length (sent s3) = length (sent s) + 196"
    and miso3: "miso (mSPI s3) = miso (mSPI s)"
    by (simp_all add: s3_def s2_def s1_def l1 l2)
  have "\<exists>pf' s'. begin_configure k inSettings isr inFilters 0 (snd (millis pf)) s3
           = Some (0, pf', s')
           \<and> miso (mSPI s') = miso (mSPI s3) \<and> length (sent s3) \<le> length (sent s')
           \<and> mDriverReceiveBuffer s' = ACANBuffer_initWithSize (mDriverReceiveFIFOSize inSettings)
           \<and> mDriverTransmitBuffer s' = ACANBuffer_initWithSize (mDriverTransmitFIFOSize inSettings)"
    using md by (intro begin_configure_succeeds) (simp add: len3 miso3)
  then obtain pf' s' where
    r3: "begin_configure k inSettings isr inFilters 0 (snd (millis pf)) s3 = Some (0, pf', s')"
    and p: "miso (mSPI s') = miso (mSPI s3)" "length (sent s3) \<le> length (sent s')"
      "mDriverReceiveBuffer s' = ACANBuffer_initWithSize (mDriverReceiveFIFOSize inSettings)"
      "mDriverTransmitBuffer s' = ACANBuffer_initWithSize (mDriverTransmitFIFOSize inSettings)"
    by blast
  have "ACAN2517_begin k inSettings isr inFilters pf s = Some (0, pf', s')"
    using chk r1 b1 r2 b2 r3
    by (simp add: ACAN2517_begin_def Let_def s2_def s3_def del: logged_simps(11))
  then show ?thesis using p len3 miso3 by auto
qed

subsection \<open>The error mask of \<open>begin\<close>\<close>

lemma if_or:
  "(if c then e OR k else e) = e OR (if c then k else 0)"
  "(if c then e OR a else e OR b) = e OR (if c then a else b)"
  for e :: u32
  by simp_all

text \<open>
  The result of the checks when the INT pin is wired and cannot raise an interrupt: the
  constant of that check, with the constants of the checks that follow it.
\<close>

lemma begin_checkSettings_INT_flat:
  assumes "mINT s \<noteq> 255" and "digitalPinToInterrupt pf (mINT s) = NOT_AN_INTERRUPT pf"
  shows "begin_checkSettings k inSettings isr inFilters pf s =
     kINTPinIsNotAnInterrupt k
     OR (if isr = None then kISRIsNull k else 0)
     OR (if 32 < mControllerTXQSize inSettings then kControllerTXQSizeGreaterThan32 k else 0)
     OR (if 31 < mControllerTXQBufferPriority inSettings
         then kControllerTXQPriorityGreaterThan31 k else 0)
     OR (if mControllerReceiveFIFOSize inSettings = 0 then kControllerReceiveFIFOSizeIsZero k
         else if 32 < mControllerReceiveFIFOSize inSettings
         then kControllerReceiveFIFOSizeGreaterThan32 k else 0)
     OR (if mControllerTransmitFIFOSize inSettings = 0 then kControllerTransmitFIFOSizeIsZero k
         else if 32 < mControllerTransmitFIFOSize inSettings
         then kControllerTransmitFIFOSizeGreaterThan32 k else 0)
     OR (if 31 < mControllerTransmitFIFOPriority inSettings
         then kControllerTransmitFIFOPriorityGreaterThan31 k else 0)
     OR (if 2048 < ramUsage inSettings then kControllerRamUsageGreaterThan2048 k else 0)
     OR (if 32 < filterCount inFilters then kMoreThan32Filters k else 0)
     OR (if filterStatus inFilters \<noteq> kFiltersOk then kFilterDefinitionError k else 0)"
  using assms
  apply (simp only: begin_checkSettings_def Let_def)
  apply (simp add: if_or or.assoc cong: if_cong split del: if_split)
  done

text \<open>
  Claim C2 does not hold of the code. Every check of \<open>begin\<close> ORs its error constant into
  \<open>errorCode\<close>, except the check of the INT pin, which assigns it
  (\<open>errorCode = kINTPinIsNotAnInterrupt\<close>) and so drops what the two checks before it
  have recorded. When the INT pin is wired and cannot raise an interrupt, \<open>begin\<close> stops
  after the checks and returns the constant of the INT pin check OR-ed with the constants
  of the later checks that fail: \<open>kTooFarFromDesiredBitRate\<close> and
  \<open>kInconsistentBitRateSettings\<close> are not in the result, whatever the bit rate settings.
\<close>

theorem begin_INT_check_overwrites:
  assumes "mINT s \<noteq> 255" and "digitalPinToInterrupt pf (mINT s) = NOT_AN_INTERRUPT pf"
    and "kINTPinIsNotAnInterrupt k \<noteq> 0"
  shows "ACAN2517_begin k inSettings isr inFilters pf s = Some
    (kINTPinIsNotAnInterrupt k
     OR (if isr = None then kISRIsNull k else 0)
     OR (if 32 < mControllerTXQSize inSettings then kControllerTXQSizeGreaterThan32 k else 0)
     OR (if 31 < mControllerTXQBufferPriority inSettings
         then kControllerTXQPriorityGreaterThan31 k else 0)
     OR (if mControllerReceiveFIFOSize inSettings = 0 then kControllerReceiveFIFOSizeIsZero k
         else if 32 < mControllerReceiveFIFOSize inSettings
         then kControllerReceiveFIFOSizeGreaterThan32 k else 0)
     OR (if mControllerTransmitFIFOSize inSettings = 0 then kControllerTransmitFIFOSizeIsZero k
         else if 32 < mControllerTransmitFIFOSize inSettings
         then kControllerTransmitFIFOSizeGreaterThan32 k else 0)
     OR (if 31 < mControllerTransmitFIFOPriority inSettings
         then kControllerTransmitFIFOPriorityGreaterThan31 k else 0)
     OR (if 2048 < ramUsage inSettings then kControllerRamUsageGreaterThan2048 k else 0)
     OR (if 32 < filterCount inFilters then kMoreThan32Filters k else 0)
     OR (if filterStatus inFilters \<noteq> kFiltersOk then kFilterDefinitionError k else 0),
     pf, s)"
proof -
  note f = begin_checkSettings_INT_flat [OF assms(1,2), of k inSettings isr inFilters]
  have "begin_checkSettings k inSettings isr inFilters pf s \<noteq> 0"
    unfolding f using assms(3) by (simp add: or_eq_0_iff cong: if_cong split del: if_split)
  from begin_rejected [OF this] show ?thesis unfolding f .
qed

text \<open>
  The bit rate is too far from the desired one and the INT pin is wired to pin 7, which
  cannot raise an interrupt; all other settings are valid. \<open>begin\<close> returns \<open>0x10\<close>, the
  constant of the INT pin check alone: bit 2, \<open>kTooFarFromDesiredBitRate\<close>, is not set.
\<close>

theorem begin_INT_check_overwrites_witness:
  "\<not> mBitRateClosedToDesiredRate (demoSettings\<lparr>mBitRateClosedToDesiredRate := False\<rparr>)
   \<and> digitalPinToInterrupt demoArduino 7 = NOT_AN_INTERRUPT demoArduino
   \<and> ACAN2517_begin demoErrorCodes (demoSettings\<lparr>mBitRateClosedToDesiredRate := False\<rparr>)
        (Some 7) demoFilters demoArduino (ACAN2517_new 10 quietSPI 7)
       = Some (0x10, demoArduino, ACAN2517_new 10 quietSPI 7)
   \<and> kTooFarFromDesiredBitRate demoErrorCodes = 0x04
   \<and> kINTPinIsNotAnInterrupt demoErrorCodes = 0x10
   \<and> (0x10 :: u32) AND kTooFarFromDesiredBitRate demoErrorCodes = 0"
  using begin_INT_check_overwrites [of "ACAN2517_new 10 quietSPI 7" demoArduino demoErrorCodes
      "demoSettings\<lparr>mBitRateClosedToDesiredRate := False\<rparr>" "Some 7" demoFilters]
  by (simp add: demoSettings_def demoFilters_def demoArduino_def
      demoErrorCodes_def ACAN2517_new_def filterCount_def)

subsection \<open>A driver brought up\<close>

text \<open>
  On the controller \<open>echoSPI c\<close>, \<open>begin\<close> returns 0 and leaves the driver \<open>demoUp c\<close>: the
  controller answers \<open>c\<close> to every read from then on, both host FIFOs are empty and of
  size 2, the flag is clear and the callback array has the two entries of the filter list.
\<close>

lemma echoSPI_readBack:
  assumes "n < 32"
  shows "answerWord (ACAN2517_new cs (echoSPI c) i) (3 * n + 5) = 2 ^ n"
    and "answerWord (ACAN2517_new cs (echoSPI c) i) (3 * n + 102) = 2 ^ n"
proof -
  have a: "\<And>j. answer (ACAN2517_new cs (echoSPI c) i) (3 * n + 5) j
             = ucast (drop_bit (8 * (j - 2)) (push_bit n 1 :: u32))"
    "\<And>j. answer (ACAN2517_new cs (echoSPI c) i) (3 * n + 102) j
             = ucast (drop_bit (8 * (j - 2)) (push_bit n 1 :: u32))"
    using assms by (simp_all add: answer_def ACAN2517_new_def echoSPI_def)
  show "answerWord (ACAN2517_new cs (echoSPI c) i) (3 * n + 5) = 2 ^ n"
    unfolding answerWord_def a using le32_reassemble [of "push_bit n 1"]
    by (simp add: push_bit_eq_mult)
  show "answerWord (ACAN2517_new cs (echoSPI c) i) (3 * n + 102) = 2 ^ n"
    unfolding answerWord_def a using le32_reassemble [of "push_bit n 1"]
    by (simp add: push_bit_eq_mult)
qed

lemma demo_checkSettings:
  "begin_checkSettings demoErrorCodes (demoSettings\<lparr>mRequestedMode := m\<rparr>) (Some 7) demoFilters
     demoArduino (ACAN2517_new 10 (echoSPI c) 2) = 0"
  by (simp add: begin_checkSettings_def demoSettings_def demoFilters_def demoArduino_def
      ACAN2517_new_def filterCount_def)

lemma demoUp_begin:
  "\<exists>pf'. ACAN2517_begin demoErrorCodes (demoSettings\<lparr>mRequestedMode := drop_bit 5 c AND 0x07\<rparr>)
           (Some 7) demoFilters demoArduino (ACAN2517_new 10 (echoSPI c) 2)
         = Some (0, pf', demoUp c)"
  and demoUp_answer: "answer (demoUp c) n j = c"
  and demoUp_buffers:
    "mDriverReceiveBuffer (demoUp c) = ACANBuffer_initWithSize 2"
    "mDriverTransmitBuffer (demoUp c) = ACANBuffer_initWithSize 2"
proof -
  define st where "st = demoSettings\<lparr>mRequestedMode := drop_bit 5 c AND 0x07\<rparr>"
  define s0 where "s0 = ACAN2517_new 10 (echoSPI c) 2"
  have "\<exists>pf' s'. ACAN2517_begin demoErrorCodes st (Some 7) demoFilters demoArduino s0
           = Some (0, pf', s')
           \<and> miso (mSPI s') = miso (mSPI s0) \<and> length (sent s0) + 196 \<le> length (sent s')
           \<and> mDriverReceiveBuffer s' = ACANBuffer_initWithSize (mDriverReceiveFIFOSize st)
           \<and> mDriverTransmitBuffer s' = ACANBuffer_initWithSize (mDriverTransmitFIFOSize st)"
  proof (rule begin_succeeds)
    show "begin_checkSettings demoErrorCodes st (Some 7) demoFilters demoArduino s0 = 0"
      unfolding st_def s0_def by (rule demo_checkSettings)
    show "drop_bit 5 (answer s0 1 2) AND 0x07 = 0x04"
      by (simp add: s0_def answer_def ACAN2517_new_def echoSPI_def)
    show "\<And>n. n < 32 \<Longrightarrow> answerWord s0 (3 * n + 5) = 2 ^ n"
      unfolding s0_def by (rule echoSPI_readBack)
    show "\<And>n. n < 32 \<Longrightarrow> answerWord s0 (3 * n + 102) = 2 ^ n"
      unfolding s0_def by (rule echoSPI_readBack)
    show "oscillator st \<noteq> OSC_4MHz10xPLL" "oscillator st \<noteq> OSC_4MHz10xPLL_DIVIDED_BY_2"
      by (simp_all add: st_def demoSettings_def)
    show "\<And>n. length (sent s0) + 196 \<le> n \<Longrightarrow>
               drop_bit 5 (miso (mSPI s0) n 2) AND 0x07 = mRequestedMode st"
      by (simp add: s0_def st_def sent_def ACAN2517_new_def echoSPI_def)
  qed
  then obtain pf' s' where
    b: "ACAN2517_begin demoErrorCodes st (Some 7) demoFilters demoArduino s0 = Some (0, pf', s')"
    and p: "miso (mSPI s') = miso (mSPI s0)" "length (sent s0) + 196 \<le> length (sent s')"
      "mDriverReceiveBuffer s' = ACANBuffer_initWithSize (mDriverReceiveFIFOSize st)"
      "mDriverTransmitBuffer s' = ACANBuffer_initWithSize (mDriverTransmitFIFOSize st)"
    by blast
  have u: "demoUp c = s'"
    using b by (simp add: demoUp_def st_def s0_def)
  show "\<exists>pf'. ACAN2517_begin demoErrorCodes (demoSettings\<lparr>mRequestedMode := drop_bit 5 c AND 0x07\<rparr>)
           (Some 7) demoFilters demoArduino (ACAN2517_new 10 (echoSPI c) 2)
         = Some (0, pf', demoUp c)"
    using b u by (auto simp add: st_def s0_def)
  show "answer (demoUp c) n j = c"
    using p(1,2) by (simp add: u answer_def sent_def s0_def ACAN2517_new_def echoSPI_def)
  show "mDriverReceiveBuffer (demoUp c) = ACANBuffer_initWithSize 2"
    "mDriverTransmitBuffer (demoUp c) = ACANBuffer_initWithSize 2"
    using p(3,4) by (simp_all add: u st_def demoSettings_def)
qed


lemma demoUp_fresh:
  "\<not> mControllerTxFIFOFull (demoUp c)"
  "map_option length (mCallBackFunctionArray (demoUp c)) = Some 2"
  "lastFIFOCON2 (demoUp c) = Some 0x80"
proof -
  obtain pf' where b: "ACAN2517_begin demoErrorCodes
      (demoSettings\<lparr>mRequestedMode := drop_bit 5 c AND 0x07\<rparr>)
      (Some 7) demoFilters demoArduino (ACAN2517_new 10 (echoSPI c) 2) = Some (0, pf', demoUp c)"
    using demoUp_begin by blast
  show "\<not> mControllerTxFIFOFull (demoUp c)"
    using begin_effect(1) [OF b] by (simp add: ACAN2517_new_def)
  show "map_option length (mCallBackFunctionArray (demoUp c)) = Some 2"
    using begin_effect(3) [OF b]
    by (simp add: filterCount_def demoFilters_def del: map_option_eq_Some)
  show "lastFIFOCON2 (demoUp c) = Some 0x80"
    using begin_effect(4) [OF b]
    by (simp add: lastFIFOCON2_def sent_def ACAN2517_new_def echoSPI_def)
qed

subsection \<open>The TX-full flag in the states after bring-up\<close>



subsection \<open>The callback array\<close>

lemma dispatch_pending:
  assumes "mBuffer (mDriverReceiveBuffer s) = m # ms"
    and "mCallBackFunctionArray s = Some array"
  shows "dispatchReceivedMessage cb s = Inl ArrayIndexOutOfBounds
           \<longleftrightarrow> length array \<le> unat (idx m)"
proof -
  have "unat (idx m) < 256" using unsigned_less [of "idx m", where ?'a = nat] by simp
  then have u: "unat (ucast (idx m) :: u32) = unat (idx m)"
    by (simp add: unsigned_ucast_eq take_bit_nat_eq_self)
  show ?thesis
    using assms
    by (auto simp add: dispatchReceivedMessage_def receive_eq Let_def u split: option.splits)
qed

text \<open>
  Claim C10. \<open>begin\<close>, when it returns 0, has allocated \<open>filterCount\<close> entries for
  \<open>mCallBackFunctionArray\<close>, and the RX handler does not touch the array. With a frame
  pending in the host RX FIFO and the array as \<open>begin\<close> left it, \<open>dispatchReceivedMessage\<close>
  reads the array at the frame's filter index without a check: the access is out of
  bounds exactly when the index is \<open>filterCount\<close> or more. The index of a received frame is
  bits 11 to 15 of the second word of the message object, any value from 0 to 31.
\<close>

theorem dispatch_index_unchecked:
  assumes "ACAN2517_begin k inSettings isr inFilters pf s0 = Some (0, pf', s1)"
    and "mCallBackFunctionArray s = mCallBackFunctionArray s1"
    and "mBuffer (mDriverReceiveBuffer s) = m # ms"
  shows "(dispatchReceivedMessage cb s = Inl ArrayIndexOutOfBounds
            \<longleftrightarrow> filterCount inFilters \<le> unat (idx m))
       \<and> mCallBackFunctionArray (receiveInterrupt s1) = mCallBackFunctionArray s1
       \<and> idx (rxMessage buff)
           = ucast (drop_bit 11 (ucast (buff ! 6) OR push_bit 8 (ucast (buff ! 7))
                      OR push_bit 16 (ucast (buff ! 8)) OR push_bit 24 (ucast (buff ! 9)) :: u32)
                    AND 0x1F)
       \<and> unat (idx (rxMessage buff)) \<le> 31"
proof -
  obtain array where a: "mCallBackFunctionArray s1 = Some array"
    "length array = filterCount inFilters"
    using begin_effect(3) [OF assms(1)] by auto
  have "unat (idx (rxMessage buff)) \<le> 31"
  proof -
    define w :: u32 where "w = drop_bit 11 (ucast (buff ! 6) OR push_bit 8 (ucast (buff ! 7))
                      OR push_bit 16 (ucast (buff ! 8)) OR push_bit 24 (ucast (buff ! 9)))"
    have "w AND 0x1F \<le> 0x1F" by (rule word_and_le1)
    then have "unat (w AND 0x1F) \<le> 31" by (simp add: word_le_nat_alt)
    moreover have "unat (ucast (w AND 0x1F) :: u8) \<le> unat (w AND 0x1F)"
      by (simp add: unsigned_ucast_eq take_bit_nat_less_eq_self)
    ultimately show ?thesis by (simp add: rxMessage_def Let_def w_def)
  qed
  then show ?thesis
    using dispatch_pending [of s m ms array cb] assms(2,3) a
    by (simp add: receiveInterrupt_eq Let_def rxMessage_def)
qed

text \<open>
  Two filters installed; the controller reports a frame whose message object is all ones,
  so its filter index is 31. The RX handler queues it and \<open>dispatchReceivedMessage\<close> reads
  the array of two entries at index 31.
\<close>

theorem dispatch_index_unchecked_witness:
  "mBuffer (mDriverReceiveBuffer (receiveInterrupt (demoUp 0xFF))) = [rxMessage (replicate 18 0xFF)]
   \<and> idx (rxMessage (replicate 18 0xFF)) = 31
   \<and> filterCount demoFilters = 2
   \<and> map_option length (mCallBackFunctionArray (receiveInterrupt (demoUp 0xFF))) = Some 2
   \<and> dispatchReceivedMessage False (receiveInterrupt (demoUp 0xFF)) = Inl ArrayIndexOutOfBounds"
proof -
  obtain pf' where b: "ACAN2517_begin demoErrorCodes
      (demoSettings\<lparr>mRequestedMode := drop_bit 5 0xFF AND 0x07\<rparr>)
      (Some 7) demoFilters demoArduino (ACAN2517_new 10 (echoSPI 0xFF) 2)
        = Some (0, pf', demoUp 0xFF)"
    using demoUp_begin [of "0xFF"] by blast
  have m: "map (answer (demoUp 0xFF) 2) [0..<18] = replicate 18 0xFF"
    by (simp add: demoUp_answer list_eq_iff_nth_eq)
  have r: "mBuffer (mDriverReceiveBuffer (receiveInterrupt (demoUp 0xFF)))
             = [rxMessage (replicate 18 0xFF)]"
    by (simp add: receiveInterrupt_eq Let_def m demoUp_buffers ACANBuffer_initWithSize_def
        ACANBuffer_append_def ACANBuffer_count_def ACANBuffer_size_def)
  have i: "idx (rxMessage (replicate 18 0xFF)) = 31"
    by (simp add: rxMessage_def Let_def)
  show ?thesis
    using dispatch_index_unchecked [OF b _ r, of False "replicate 18 0xFF"] r i
      demoUp_fresh(2) [of "0xFF"]
    by (simp add: receiveInterrupt_eq Let_def filterCount_def demoFilters_def
        del: map_option_eq_Some)
qed
end
